theory Spec2Isabelle
  imports Complex_Main "HOL-Library.AList"
begin

section \<open>Python built-ins the scripts rely on\<close>

text \<open>
  A character is a code point below 256 and a string a list of them. The character
  classes below are those of Python on these code points: among them only the ten
  ASCII digits are decimal digits. Text with a code point from 256 on is outside the
  model.
\<close>

datatype py_error = ValueError | TypeError | OverflowError | NotFound

definition is_digit :: "char \<Rightarrow> bool" where
  "is_digit c = (48 \<le> (of_char c :: nat) \<and> (of_char c :: nat) \<le> 57)"

definition digit_val :: "char \<Rightarrow> nat" where
  "digit_val c = (of_char c :: nat) - 48"

text \<open>
  \<^verbatim>\<open>str.strip()\<close> drops the characters for which \<^verbatim>\<open>str.isspace\<close> holds: tab to
  carriage return, the four separators 0x1C to 0x1F, the space, 0x85 and 0xA0.
\<close>

definition py_isspace :: "char \<Rightarrow> bool" where
  "py_isspace c =
     (let n = (of_char c :: nat)
      in (9 \<le> n \<and> n \<le> 13) \<or> (28 \<le> n \<and> n \<le> 32) \<or> n = 133 \<or> n = 160)"

definition py_strip :: "string \<Rightarrow> string" where
  "py_strip s = rev (dropWhile py_isspace (rev (dropWhile py_isspace s)))"

text \<open>
  The digits of a decimal literal after its first digit: more digits, each optionally
  preceded by one underscore (\<^verbatim>\<open>int("1_000")\<close> is 1000, \<^verbatim>\<open>int("1__0")\<close> and
  \<^verbatim>\<open>int("1_")\<close> raise).
\<close>

fun int_body :: "string \<Rightarrow> nat \<Rightarrow> nat option" where
  "int_body [] acc = Some acc"
| "int_body [c] acc = (if is_digit c then Some (10 * acc + digit_val c) else None)"
| "int_body (c # d # cs) acc =
     (if is_digit c then int_body (d # cs) (10 * acc + digit_val c)
      else if c = CHR ''_'' \<and> is_digit d then int_body cs (10 * acc + digit_val d)
      else None)"

definition int_unsigned :: "string \<Rightarrow> nat option" where
  "int_unsigned s = (case s of [] \<Rightarrow> None
     | c # cs \<Rightarrow> if is_digit c then int_body cs (digit_val c) else None)"

text \<open>
  The whitespace that \<^verbatim>\<open>int\<close> accepts around a numeral is not that of
  \<^verbatim>\<open>str.strip\<close>: the separators 0x1C to 0x1F are not part of it, so
  the character 0x1C followed by the digit 7 makes \<^verbatim>\<open>int\<close> raise.
\<close>

definition int_isspace :: "char \<Rightarrow> bool" where
  "int_isspace c =
     (let n = (of_char c :: nat) in (9 \<le> n \<and> n \<le> 13) \<or> n = 32 \<or> n = 133 \<or> n = 160)"

text \<open>
  The interpreter refuses a decimal text of more than 4300 digits
  (\<^verbatim>\<open>sys.int_info.default_max_str_digits\<close>; no script changes the limit). Leading
  zeros count, underscores and the sign do not.
\<close>

definition max_str_digits :: nat where
  "max_str_digits = 4300"

text \<open>
  \<^verbatim>\<open>int(s)\<close> for a string, base 10: surrounding whitespace is dropped, one sign is
  allowed; \<open>None\<close> stands for the ValueError.
\<close>

definition py_int :: "string \<Rightarrow> int option" where
  "py_int s =
     (let t = rev (dropWhile int_isspace (rev (dropWhile int_isspace s)))
      in if max_str_digits < length (filter is_digit t) then None
         else
           (case t of
              [] \<Rightarrow> None
            | c # cs \<Rightarrow>
               if c = CHR ''-'' then map_option (\<lambda>n. - int n) (int_unsigned cs)
               else if c = CHR ''+'' then map_option int (int_unsigned cs)
               else map_option int (int_unsigned (c # cs))))"

text \<open>
  The same limit holds the other way: the text of an integer of more than 4300
  digits is refused with a ValueError, by \<^verbatim>\<open>str\<close> and inside a formatted string
  alike.
\<close>

definition str_raises :: "int \<Rightarrow> bool" where
  "str_raises n = (10 ^ max_str_digits \<le> \<bar>n\<bar>)"

text \<open>Python's \<^verbatim>\<open>xs[a:b]\<close> on a list, with its clamping of both bounds.\<close>

definition slice_bound :: "int \<Rightarrow> nat \<Rightarrow> nat" where
  "slice_bound i n = (if i < 0 then nat (max 0 (int n + i)) else min (nat i) n)"

definition py_slice :: "'a list \<Rightarrow> int \<Rightarrow> int \<Rightarrow> 'a list" where
  "py_slice xs a b = (let lo = slice_bound a (length xs); hi = slice_bound b (length xs)
                      in take (hi - lo) (drop lo xs))"


section \<open>GrantsViewer: pagination of the filtered list\<close>

text \<open>
  \<^verbatim>\<open>GrantsViewer/__init__.py\<close>, \<^verbatim>\<open>main\<close>. A query parameter is \<open>None\<close> when the
  request does not carry it, and \<^verbatim>\<open>req.params.get\<close> then supplies the default text.
\<close>

definition param_get :: "string option \<Rightarrow> string \<Rightarrow> string" where
  "param_get p d = (case p of None \<Rightarrow> d | Some s \<Rightarrow> s)"

definition parse_limit :: "string option \<Rightarrow> int" where
  "parse_limit p = (case py_int (param_get p ''100'') of
       None \<Rightarrow> 100
     | Some l \<Rightarrow> if l \<le> 0 then 100 else if l > 10000 then 10000 else l)"

definition parse_page :: "string option \<Rightarrow> int" where
  "parse_page p = (case py_int (param_get p ''1'') of
       None \<Rightarrow> 1
     | Some n \<Rightarrow> max 1 n)"

record 'a envelope =
  total :: int
  page :: int
  limit :: int
  pages :: int
  grants :: "'a list"

definition total_pages :: "int \<Rightarrow> int \<Rightarrow> int" where
  "total_pages total_count lmt =
     (if total_count > 0 then (total_count + lmt - 1) div lmt else 1)"

text \<open>
  Lines 118 to 122 and the JSON envelope, on the list \<open>filtered_grants\<close> that the
  filtering loop has produced.
\<close>

definition paginate :: "string option \<Rightarrow> string option \<Rightarrow> 'a list \<Rightarrow> 'a envelope" where
  "paginate limit_param page_param filtered_grants =
     (let lmt = parse_limit limit_param;
          pg = parse_page page_param;
          offset = (pg - 1) * lmt;
          total_count = int (length filtered_grants)
      in \<lparr> total = total_count, page = pg, limit = lmt,
           pages = total_pages total_count lmt,
           grants = py_slice filtered_grants offset (offset + lmt) \<rparr>)"

text \<open>
  The handler itself. Without a storage connection string it answers 500. Otherwise
  it logs the offset in a formatted string (line 77, and again on line 123) before it
  returns anything; when the text of the offset is refused, the ValueError reaches the
  outer \<^verbatim>\<open>except Exception\<close>, which answers 500. Else the envelope is returned with
  status 200. The integers of the envelope itself always have a text: the page was
  read from one, the limit is at most 10000, and the two counts are bounded by the
  length of the list.
\<close>

datatype 'a response = Failed nat | Ok "'a envelope"

definition viewer_main ::
  "string option \<Rightarrow> string option \<Rightarrow> string option \<Rightarrow> 'a list \<Rightarrow> 'a response" where
  "viewer_main connection_string limit_param page_param filtered_grants =
     (case connection_string of
        None \<Rightarrow> Failed 500
      | Some c \<Rightarrow>
          if c = [] then Failed 500
          else if str_raises ((parse_page page_param - 1) * parse_limit limit_param)
          then Failed 500
          else Ok (paginate limit_param page_param filtered_grants))"


section \<open>Values carried by payloads and by table rows\<close>

text \<open>
  A value read from a decoded JSON payload or from a scraped page: \<^verbatim>\<open>None\<close>, a
  string, an integer or a boolean. Fractional JSON numbers and nested values are
  outside the model.
\<close>

datatype jval = JNull | JStr string | JInt int | JBool bool

text \<open>
  A property value of a stored table row. A Python \<^verbatim>\<open>float\<close> is modelled by the
  rational number it denotes; rounding to the nearest double is not modelled.
\<close>

datatype pyval = PStr string | PInt int | PFloat rat | PBool bool

text \<open>Truth value of a payload value and of a stored value, as \<^verbatim>\<open>if x:\<close> tests it.\<close>

fun jtruthy :: "jval option \<Rightarrow> bool" where
  "jtruthy None = False"
| "jtruthy (Some JNull) = False"
| "jtruthy (Some (JStr s)) = (s \<noteq> [])"
| "jtruthy (Some (JInt n)) = (n \<noteq> 0)"
| "jtruthy (Some (JBool b)) = b"

fun ptruthy :: "pyval option \<Rightarrow> bool" where
  "ptruthy None = False"
| "ptruthy (Some (PStr s)) = (s \<noteq> [])"
| "ptruthy (Some (PInt n)) = (n \<noteq> 0)"
| "ptruthy (Some (PFloat r)) = (r \<noteq> 0)"
| "ptruthy (Some (PBool b)) = b"

text \<open>Comparison of two strings with \<^verbatim>\<open><\<close>: lexicographic on the characters.\<close>

fun str_lt :: "string \<Rightarrow> string \<Rightarrow> bool" where
  "str_lt [] [] = False"
| "str_lt [] (y # ys) = True"
| "str_lt (x # xs) [] = False"
| "str_lt (x # xs) (y # ys) =
     ((of_char x :: nat) < of_char y \<or> (x = y \<and> str_lt xs ys))"


section \<open>Numeric coercion\<close>

definition digits_nat :: "string \<Rightarrow> nat" where
  "digits_nat ds = foldl (\<lambda>a c. 10 * a + digit_val c) 0 ds"

text \<open>
  \<^verbatim>\<open>float(s)\<close> on a string made of ASCII digits, points and minus signs only, which
  is all that the cleaning in \<^verbatim>\<open>safe_float\<close> leaves: an optional leading minus, then
  digits with at most one point and at least one digit. \<open>None\<close> is the ValueError.
\<close>

definition float_unsigned :: "string \<Rightarrow> rat option" where
  "float_unsigned s =
     (let ip = takeWhile is_digit s; rest = dropWhile is_digit s
      in case rest of
           [] \<Rightarrow> if ip = [] then None else Some (of_nat (digits_nat ip))
         | c # fp \<Rightarrow>
             if c = CHR ''.'' \<and> list_all is_digit fp \<and> (ip \<noteq> [] \<or> fp \<noteq> [])
             then Some (of_nat (digits_nat ip) + of_nat (digits_nat fp) / 10 ^ length fp)
             else None)"

definition py_float :: "string \<Rightarrow> rat option" where
  "py_float s = (case s of
       [] \<Rightarrow> None
     | c # cs \<Rightarrow> if c = CHR ''-'' then map_option uminus (float_unsigned cs)
                else float_unsigned s)"

text \<open>
  \<^verbatim>\<open>float(n)\<close> on an integer raises OverflowError once \<open>n\<close> rounds beyond the
  largest double.
\<close>

definition float_of_int :: "int \<Rightarrow> py_error + rat" where
  "float_of_int n = (if 2 ^ 1024 - 2 ^ 970 \<le> \<bar>n\<bar> then Inl OverflowError else Inr (of_int n))"

text \<open>\<^verbatim>\<open>re.sub(r'[^0-9\.\-]', '', value)\<close>\<close>

definition keep_numeric :: "string \<Rightarrow> string" where
  "keep_numeric s = filter (\<lambda>c. is_digit c \<or> c = CHR ''.'' \<or> c = CHR ''-'') s"

text \<open>
  \<^verbatim>\<open>connection_resilient_collector.py\<close>, \<^verbatim>\<open>safe_float\<close>. The \<^verbatim>\<open>except\<close> clause
  catches ValueError and TypeError only, so the OverflowError of an integer argument
  leaves the function.
\<close>

fun safe_float :: "jval \<Rightarrow> rat \<Rightarrow> py_error + rat" where
  "safe_float JNull dflt = Inr dflt"
| "safe_float (JStr s) dflt =
     (let v = filter (\<lambda>c. c \<noteq> CHR '','') (filter (\<lambda>c. c \<noteq> CHR ''$'') s);
          v = keep_numeric v
      in if v = [] \<or> v = ''.'' \<or> v = ''-'' \<or> v = ''-.'' then Inr dflt
         else case py_float v of None \<Rightarrow> Inr dflt | Some r \<Rightarrow> Inr r)"
| "safe_float (JInt n) dflt = float_of_int n"
| "safe_float (JBool b) dflt = Inr (if b then 1 else 0)"


section \<open>Dates and their ISO text\<close>

text \<open>
  A \<^verbatim>\<open>datetime\<close> value (naive, as \<^verbatim>\<open>datetime.now()\<close> returns it) and a
  \<^verbatim>\<open>date\<close> value. The constructors of the library accept exactly the valid ones.
\<close>

record datetime =
  year :: nat
  month :: nat
  day :: nat
  hour :: nat
  minute :: nat
  second :: nat
  microsecond :: nat

definition is_leap :: "nat \<Rightarrow> bool" where
  "is_leap y = (y mod 4 = 0 \<and> (y mod 100 \<noteq> 0 \<or> y mod 400 = 0))"

definition days_in_month :: "nat \<Rightarrow> nat \<Rightarrow> nat" where
  "days_in_month y m =
     (if m = 2 then (if is_leap y then 29 else 28)
      else if m = 4 \<or> m = 6 \<or> m = 9 \<or> m = 11 then 30 else 31)"

definition valid_date :: "nat \<Rightarrow> nat \<Rightarrow> nat \<Rightarrow> bool" where
  "valid_date y m d =
     (1 \<le> y \<and> y \<le> 9999 \<and> 1 \<le> m \<and> m \<le> 12 \<and> 1 \<le> d \<and> d \<le> days_in_month y m)"

definition valid_datetime :: "datetime \<Rightarrow> bool" where
  "valid_datetime t =
     (valid_date (year t) (month t) (day t) \<and> hour t < 24 \<and> minute t < 60
      \<and> second t < 60 \<and> microsecond t < 1000000)"

definition digit_char :: "nat \<Rightarrow> char" where
  "digit_char n = ''0123456789'' ! (n mod 10)"

text \<open>Zero-padded decimal fields, for values within the ranges of a valid datetime.\<close>

definition pad2 :: "nat \<Rightarrow> string" where
  "pad2 n = [digit_char (n div 10), digit_char n]"

definition pad4 :: "nat \<Rightarrow> string" where
  "pad4 n = pad2 (n div 100) @ pad2 (n mod 100)"

definition pad6 :: "nat \<Rightarrow> string" where
  "pad6 n = pad2 (n div 10000) @ pad4 (n mod 10000)"

text \<open>\<^verbatim>\<open>datetime.isoformat()\<close>: the fraction is printed only when it is not zero.\<close>

definition isoformat :: "datetime \<Rightarrow> string" where
  "isoformat t =
     pad4 (year t) @ ''-'' @ pad2 (month t) @ ''-'' @ pad2 (day t) @ ''T''
     @ pad2 (hour t) @ '':'' @ pad2 (minute t) @ '':'' @ pad2 (second t)
     @ (if microsecond t = 0 then [] else ''.'' @ pad6 (microsecond t))"

datatype date = Date nat nat nat

text \<open>\<^verbatim>\<open>datetime.date(year, month, day)\<close>; \<open>None\<close> is its ValueError.\<close>

definition make_date :: "int \<Rightarrow> int \<Rightarrow> int \<Rightarrow> date option" where
  "make_date y m d =
     (if 0 \<le> y \<and> 0 \<le> m \<and> 0 \<le> d \<and> valid_date (nat y) (nat m) (nat d)
      then Some (Date (nat y) (nat m) (nat d)) else None)"


section \<open>Date normalization\<close>

text \<open>
  \<^verbatim>\<open>etl_script.py\<close>, \<^verbatim>\<open>parse_grants_date\<close>, applied to every cell of the four
  date columns. A cell that is empty, not a string, not eight characters long or
  not a date gives \<^verbatim>\<open>None\<close>.
\<close>

definition parse_grants_date :: "jval \<Rightarrow> date option" where
  "parse_grants_date date_str =
     (case date_str of
        JStr s \<Rightarrow>
          if s = [] then None
          else if length s = 8 then
            (case py_int (take 2 s) of
               None \<Rightarrow> None
             | Some m \<Rightarrow>
                (case py_int (take 2 (drop 2 s)) of
                   None \<Rightarrow> None
                 | Some d \<Rightarrow>
                    (case py_int (take 4 (drop 4 s)) of
                       None \<Rightarrow> None
                     | Some y \<Rightarrow>
                        if 1 \<le> m \<and> m \<le> 12 \<and> 1 \<le> d \<and> d \<le> 31
                        then make_date y m d else None)))
          else None
      | _ \<Rightarrow> None)"

text \<open>
  \<^verbatim>\<open>resilient_grant_scraper.py\<close>, \<^verbatim>\<open>format_date\<close>. The library function
  \<^verbatim>\<open>datetime.strptime\<close> is a parameter: \<open>strptime s fmt\<close> is the datetime it parses
  from \<open>s\<close> under the format \<open>fmt\<close>, or \<open>None\<close> for its ValueError. A truthy argument
  that is not a string makes \<^verbatim>\<open>strptime\<close> raise TypeError, which is not caught.
\<close>

definition date_formats :: "string list" where
  "date_formats =
     [''%m/%d/%Y'', ''%m-%d-%Y'', ''%Y-%m-%d'',
      ''%m/%d/%Y %I:%M %p'', ''%m-%d-%Y %I:%M %p'', ''%Y-%m-%d %I:%M %p'',
      ''%m/%d/%Y %H:%M'', ''%m-%d-%Y %H:%M'', ''%Y-%m-%d %H:%M'']"

fun try_formats :: "(string \<Rightarrow> string \<Rightarrow> datetime option) \<Rightarrow> string \<Rightarrow> string list
    \<Rightarrow> datetime option" where
  "try_formats strptime s [] = None"
| "try_formats strptime s (fmt # fmts) =
     (case strptime s fmt of
        Some date_obj \<Rightarrow> Some date_obj
      | None \<Rightarrow> try_formats strptime s fmts)"

definition format_date ::
  "(string \<Rightarrow> string \<Rightarrow> datetime option) \<Rightarrow> jval \<Rightarrow> py_error + string option" where
  "format_date strptime date_str =
     (case date_str of
        JNull \<Rightarrow> Inr None
      | JInt n \<Rightarrow> if n = 0 then Inr None else Inl TypeError
      | JBool b \<Rightarrow> if b then Inl TypeError else Inr None
      | JStr s \<Rightarrow>
          if s = [] then Inr None
          else (case try_formats strptime s date_formats of
                  Some date_obj \<Rightarrow> Inr (Some (isoformat date_obj))
                | None \<Rightarrow> Inr (Some s)))"

text \<open>
  The answers of \<^verbatim>\<open>strptime\<close> on the texts used in the examples below: the one text
  that one of the nine formats parses, and nothing else.
\<close>

definition strptime_examples :: "string \<Rightarrow> string \<Rightarrow> datetime option" where
  "strptime_examples s fmt =
     (if s = ''04/13/2023'' \<and> fmt = ''%m/%d/%Y''
      then Some \<lparr> year = 2023, month = 4, day = 13, hour = 0, minute = 0, second = 0,
                   microsecond = 0 \<rparr>
      else None)"


section \<open>The table of stored grants\<close>

text \<open>
  The table service is used through its client. A row is identified by its partition
  key and row key, both strings, and carries named properties; the table holds at
  most one row for each pair of keys.
\<close>

type_synonym props = "string \<rightharpoonup> pyval"
type_synonym row = "(string \<times> string) \<times> props"
type_synonym table = "row list"

text \<open>\<^verbatim>\<open>query_entities("PartitionKey eq 'Grant'")\<close>\<close>

definition query_grants :: "table \<Rightarrow> row list" where
  "query_grants tbl = filter (\<lambda>r. fst (fst r) = ''Grant'') tbl"

text \<open>\<^verbatim>\<open>delete_entity(partition_key, row_key)\<close>\<close>

definition delete_entity :: "string \<times> string \<Rightarrow> table \<Rightarrow> table" where
  "delete_entity k tbl = AList.delete k tbl"


section \<open>Retention cleanup\<close>

text \<open>\<^verbatim>\<open>cleanup_old_grants.py\<close>; \<^verbatim>\<open>datetime.max.isoformat()\<close> is the text below.\<close>

definition datetime_max_iso :: string where
  "datetime_max_iso = ''9999-12-31T23:59:59.999999''"

text \<open>
  The test of the list comprehension: a stored \<^verbatim>\<open>LastUpdated\<close> that is not a string
  cannot be compared with the threshold text and raises TypeError.
\<close>

definition is_old :: "string \<Rightarrow> row \<Rightarrow> py_error + bool" where
  "is_old threshold_date grant =
     (case snd grant ''LastUpdated'' of
        None \<Rightarrow> Inr (str_lt datetime_max_iso threshold_date)
      | Some (PStr s) \<Rightarrow> Inr (str_lt s threshold_date)
      | Some _ \<Rightarrow> Inl TypeError)"

fun old_grants :: "string \<Rightarrow> row list \<Rightarrow> py_error + row list" where
  "old_grants threshold_date [] = Inr []"
| "old_grants threshold_date (g # gs) =
     (case is_old threshold_date g of
        Inl e \<Rightarrow> Inl e
      | Inr b \<Rightarrow> (case old_grants threshold_date gs of
                    Inl e \<Rightarrow> Inl e
                  | Inr rest \<Rightarrow> Inr (if b then g # rest else rest)))"

fun delete_all :: "row list \<Rightarrow> table \<Rightarrow> table" where
  "delete_all [] tbl = tbl"
| "delete_all (g # gs) tbl = delete_all gs (delete_entity (fst g) tbl)"

text \<open>
  \<open>threshold\<close> is the moment 90 days before the run, as the datetime arithmetic of the
  library gives it. The list of old grants is complete before the first deletion, so
  an error while building it leaves the table as it was.
\<close>

definition cleanup_main :: "datetime \<Rightarrow> table \<Rightarrow> py_error + table" where
  "cleanup_main threshold tbl =
     (let threshold_date = isoformat threshold
      in case old_grants threshold_date (query_grants tbl) of
           Inl e \<Rightarrow> Inl e
         | Inr old \<Rightarrow> Inr (delete_all old tbl))"


text \<open>
  Two predicates used to state what the cleanup does: every \<^verbatim>\<open>LastUpdated\<close> of the
  listed rows is a string (as every writer of this repository stores it), and a row is
  outdated when its \<^verbatim>\<open>LastUpdated\<close> is present and compares below the threshold text.
\<close>

definition strings_only :: "row list \<Rightarrow> bool" where
  "strings_only gs =
     list_all (\<lambda>g. case snd g ''LastUpdated'' of
                      None \<Rightarrow> True | Some (PStr s) \<Rightarrow> True | Some _ \<Rightarrow> False) gs"

definition outdated :: "string \<Rightarrow> row \<Rightarrow> bool" where
  "outdated t g = (case snd g ''LastUpdated'' of Some (PStr s) \<Rightarrow> str_lt s t | _ \<Rightarrow> False)"

definition datetime_max :: datetime where
  "datetime_max = \<lparr> year = 9999, month = 12, day = 31, hour = 23, minute = 59,
                     second = 59, microsecond = 999999 \<rparr>"


section \<open>Text of a value\<close>

fun nat_str :: "nat \<Rightarrow> string" where
  "nat_str n = (if n < 10 then [digit_char n] else nat_str (n div 10) @ [digit_char n])"

definition int_str :: "int \<Rightarrow> string" where
  "int_str i = (if i < 0 then CHR ''-'' # nat_str (nat (- i)) else nat_str (nat i))"

text \<open>\<^verbatim>\<open>str(x)\<close>, also what an f-string prints for \<open>x\<close>.\<close>

fun py_str :: "jval \<Rightarrow> string" where
  "py_str JNull = ''None''"
| "py_str (JStr s) = s"
| "py_str (JInt n) = int_str n"
| "py_str (JBool b) = (if b then ''True'' else ''False'')"

text \<open>\<^verbatim>\<open>d.get(key)\<close> and \<^verbatim>\<open>d.get(key, default)\<close> on a payload.\<close>

definition get_or_none :: "(string \<rightharpoonup> jval) \<Rightarrow> string \<Rightarrow> jval" where
  "get_or_none d k = (case d k of None \<Rightarrow> JNull | Some v \<Rightarrow> v)"

definition get_or :: "(string \<rightharpoonup> jval) \<Rightarrow> string \<Rightarrow> string \<Rightarrow> jval" where
  "get_or d k dflt = (case d k of None \<Rightarrow> JStr dflt | Some v \<Rightarrow> v)"


section \<open>The transformer of the relational pipeline\<close>

text \<open>
  \<^verbatim>\<open>transform.py\<close>, \<^verbatim>\<open>GrantDataTransformer.transform_opportunities\<close>. The library
  function \<^verbatim>\<open>json.dumps\<close> is a parameter. The entries of the dictionary are evaluated
  in the order written, so the slice of the description, which raises TypeError on a
  description that is \<^verbatim>\<open>None\<close> or a number, comes before \<^verbatim>\<open>json.dumps\<close>.
\<close>

definition short_description :: "(string \<rightharpoonup> jval) \<Rightarrow> py_error + string" where
  "short_description opp =
     (case opp ''description'' of
        None \<Rightarrow> Inr []
      | Some (JStr s) \<Rightarrow> Inr (py_slice s 0 500)
      | Some _ \<Rightarrow> Inl TypeError)"

definition transformed_opp ::
  "((string \<rightharpoonup> jval) \<Rightarrow> string) \<Rightarrow> (string \<rightharpoonup> jval) \<Rightarrow> py_error + (string \<rightharpoonup> jval)" where
  "transformed_opp json_dumps opp =
     (case short_description opp of
        Inl e \<Rightarrow> Inl e
      | Inr short \<Rightarrow> Inr
         [''id'' \<mapsto> get_or_none opp ''id'',
          ''opportunity_url'' \<mapsto>
             JStr (''https://www.grants.gov/search-results-detail/''
                   @ py_str (get_or_none opp ''id'')),
          ''title'' \<mapsto> get_or_none opp ''title'',
          ''deadline'' \<mapsto> get_or_none opp ''closeDate'',
          ''time_zone'' \<mapsto> JStr ''Eastern Time (ET)'',
          ''award_value'' \<mapsto> JNull,
          ''cash_award'' \<mapsto> JNull,
          ''direct_link_to_apply_url'' \<mapsto>
             JStr (''https://www.grants.gov/apply-for-grants/opportunities/''
                   @ py_str (get_or_none opp ''id'')),
          ''opportunity_gap'' \<mapsto> JNull,
          ''type'' \<mapsto> JStr ''Grant'',
          ''global_opportunity'' \<mapsto> JBool False,
          ''global_locations'' \<mapsto> JStr ''North America'',
          ''countries_eligible'' \<mapsto> JStr ''United States'',
          ''location_details'' \<mapsto> JStr ''United States'',
          ''short_description'' \<mapsto> JStr short,
          ''eligibility'' \<mapsto> JNull,
          ''long_description'' \<mapsto> get_or_none opp ''description'',
          ''target_community'' \<mapsto> JNull,
          ''opportunity_logo_url'' \<mapsto> JNull,
          ''date_posted'' \<mapsto> get_or_none opp ''openDate'',
          ''industry'' \<mapsto> JNull,
          ''service_provider'' \<mapsto> get_or_none opp ''agency'',
          ''eso_website'' \<mapsto> JNull,
          ''contact_email'' \<mapsto> JNull,
          ''agency'' \<mapsto> get_or_none opp ''agency'',
          ''agency_code'' \<mapsto> get_or_none opp ''agencyCode'',
          ''opportunity_number'' \<mapsto> get_or_none opp ''number'',
          ''opportunity_status'' \<mapsto> get_or_none opp ''oppStatus'',
          ''open_date'' \<mapsto> get_or_none opp ''openDate'',
          ''close_date'' \<mapsto> get_or_none opp ''closeDate'',
          ''raw_data'' \<mapsto> JStr (json_dumps opp)])"

text \<open>The test of line 25: the record is skipped when it holds.\<close>

definition missing_critical :: "(string \<rightharpoonup> jval) \<Rightarrow> bool" where
  "missing_critical opp = (\<not> jtruthy (opp ''id'') \<or> \<not> jtruthy (opp ''title''))"

text \<open>
  The loop. Its result is the list returned together with the number of
  \<^verbatim>\<open>Skipping opportunity\<close> warnings it has logged; the transformer keeps no counter
  of its own. A TypeError leaves the function and nothing is returned.
\<close>

fun transform_opportunities ::
  "((string \<rightharpoonup> jval) \<Rightarrow> string) \<Rightarrow> (string \<rightharpoonup> jval) list
     \<Rightarrow> py_error + ((string \<rightharpoonup> jval) list \<times> nat)" where
  "transform_opportunities json_dumps [] = Inr ([], 0)"
| "transform_opportunities json_dumps (opp # opportunities) =
     (if missing_critical opp then
        (case transform_opportunities json_dumps opportunities of
           Inl e \<Rightarrow> Inl e
         | Inr (ts, warnings) \<Rightarrow> Inr (ts, Suc warnings))
      else
        (case transformed_opp json_dumps opp of
           Inl e \<Rightarrow> Inl e
         | Inr t \<Rightarrow>
            (case transform_opportunities json_dumps opportunities of
               Inl e \<Rightarrow> Inl e
             | Inr (ts, warnings) \<Rightarrow> Inr (t # ts, warnings))))"

text \<open>A stand-in for \<^verbatim>\<open>json.dumps\<close> in the examples, where its text does not matter.\<close>

definition dumps_example :: "(string \<rightharpoonup> jval) \<Rightarrow> string" where
  "dumps_example opp = ''{...}''"


section \<open>Writing to the table\<close>

text \<open>
  An entity handed to the table client is a dictionary that names the two keys among
  its entries. The client raises TypeError when a key is not a string.
\<close>

definition entity_keys :: "(string \<rightharpoonup> pyval) \<Rightarrow> (string \<times> string) option" where
  "entity_keys entity =
     (case entity ''PartitionKey'' of
        Some (PStr pk) \<Rightarrow>
          (case entity ''RowKey'' of Some (PStr rk) \<Rightarrow> Some (pk, rk) | _ \<Rightarrow> None)
      | _ \<Rightarrow> None)"

definition entity_props :: "(string \<rightharpoonup> pyval) \<Rightarrow> props" where
  "entity_props entity = (\<lambda>k. if k = ''PartitionKey'' \<or> k = ''RowKey'' then None else entity k)"

text \<open>
  The client sends a Python \<^verbatim>\<open>int\<close> as a 32-bit integer and raises TypeError for
  one that does not fit; a \<^verbatim>\<open>bool\<close>, a \<^verbatim>\<open>float\<close> and a string are sent as they
  are. An entity can be sent when each of its values can.
\<close>

definition int32 :: "pyval \<Rightarrow> bool" where
  "int32 v = (case v of PInt n \<Rightarrow> - (2 ^ 31) \<le> n \<and> n < 2 ^ 31 | _ \<Rightarrow> True)"

definition encodable :: "(string \<rightharpoonup> pyval) \<Rightarrow> bool" where
  "encodable entity = (\<forall>v \<in> ran entity. int32 v)"

text \<open>
  \<^verbatim>\<open>upsert_entity(entity, mode=UpdateMode.MERGE)\<close>; MERGE is also the mode when none
  is given. A property named by the entity replaces the stored one, whatever its
  value; a stored property the entity does not name is kept. Without a stored row
  the entity is inserted.
\<close>

definition upsert_entity :: "(string \<rightharpoonup> pyval) \<Rightarrow> table \<Rightarrow> py_error + table" where
  "upsert_entity entity tbl =
     (case entity_keys entity of
        None \<Rightarrow> Inl TypeError
      | Some k \<Rightarrow>
         if \<not> encodable entity then Inl TypeError
         else
           (case map_of tbl k of
              None \<Rightarrow> Inr (tbl @ [(k, entity_props entity)])
            | Some stored \<Rightarrow> Inr (AList.update k (stored ++ entity_props entity) tbl)))"

text \<open>\<^verbatim>\<open>update_entity(mode=UpdateMode.MERGE, entity=...)\<close>: the row must exist.\<close>

definition update_entity :: "(string \<rightharpoonup> pyval) \<Rightarrow> table \<Rightarrow> py_error + table" where
  "update_entity entity tbl =
     (case entity_keys entity of
        None \<Rightarrow> Inl TypeError
      | Some k \<Rightarrow>
         if \<not> encodable entity then Inl TypeError
         else
           (case map_of tbl k of
              None \<Rightarrow> Inl NotFound
            | Some stored \<Rightarrow> Inr (AList.update k (stored ++ entity_props entity) tbl)))"

text \<open>\<^verbatim>\<open>get_entity(partition_key, row_key)\<close>\<close>

definition get_entity :: "string \<Rightarrow> string \<Rightarrow> table \<Rightarrow> py_error + props" where
  "get_entity pk rk tbl = (case map_of tbl (pk, rk) of None \<Rightarrow> Inl NotFound | Some p \<Rightarrow> Inr p)"

text \<open>A payload value as a property value; \<^verbatim>\<open>None\<close> is no value.\<close>

fun to_pyval :: "jval \<Rightarrow> pyval option" where
  "to_pyval JNull = None"
| "to_pyval (JStr s) = Some (PStr s)"
| "to_pyval (JInt n) = Some (PInt n)"
| "to_pyval (JBool b) = Some (PBool b)"

definition nul :: char where
  "nul = CHR 0x00"


section \<open>GetGrantDetails: one opportunity from the queue\<close>

text \<open>
  \<^verbatim>\<open>Runwei/.../GetGrantDetails/__init__.py\<close>. The answer of an HTTP request: the call
  raised, or a status and the decoded JSON body (\<open>None\<close> when the body is not JSON).
\<close>

datatype 'a http_result = Raised | Response nat "'a option"

text \<open>
  The decoded body: not a dictionary; a dictionary whose \<^verbatim>\<open>opportunity\<close> entry is
  not a dictionary; a dictionary with a nested \<^verbatim>\<open>opportunity\<close>; a dictionary without
  that entry (the legacy shape).
\<close>

datatype grant_json =
    NotDict
  | NestedBad
  | Nested "string \<rightharpoonup> jval"
  | Flat "string \<rightharpoonup> jval"

definition clean_text_details :: "jval \<Rightarrow> string" where
  "clean_text_details text =
     (case text of
        JNull \<Rightarrow> []
      | JStr s \<Rightarrow>
          (let t = filter (\<lambda>c. c \<noteq> nul) s
           in if length t > 32000 then py_slice t 0 32000 @ ''... (truncated)'' else t)
      | v \<Rightarrow> py_str v)"

definition details_field :: "grant_json \<Rightarrow> string \<Rightarrow> string \<Rightarrow> string" where
  "details_field grant_data nested_key flat_key =
     (case grant_data of
        Nested opp \<Rightarrow> clean_text_details (get_or opp nested_key [])
      | Flat d \<Rightarrow> clean_text_details (get_or d flat_key [])
      | _ \<Rightarrow> [])"

definition details_entity :: "string \<Rightarrow> string \<Rightarrow> grant_json \<Rightarrow> (string \<rightharpoonup> pyval)" where
  "details_entity opportunity_id now grant_data =
     (let description = details_field grant_data ''description'' ''description''
      in [''PartitionKey'' \<mapsto> PStr ''Grant'',
          ''RowKey'' \<mapsto> PStr opportunity_id,
          ''Title'' \<mapsto> PStr (details_field grant_data ''title'' ''opportunityTitle''),
          ''AgencyName'' \<mapsto> PStr (details_field grant_data ''agency'' ''agencyName''),
          ''Description'' \<mapsto>
             PStr (if length description > 32000 then py_slice description 0 32000
                   else description),
          ''CloseDate'' \<mapsto> PStr (details_field grant_data ''closeDate'' ''closeDate''),
          ''PostDate'' \<mapsto> PStr (details_field grant_data ''postDate'' ''postDate''),
          ''AgencyCode'' \<mapsto> PStr (details_field grant_data ''agencyCode'' ''agencyCode''),
          ''AwardCeiling'' \<mapsto>
             PStr (details_field grant_data ''awardCeiling'' ''awardCeiling''),
          ''AwardFloor'' \<mapsto> PStr (details_field grant_data ''awardFloor'' ''awardFloor''),
          ''Category'' \<mapsto> PStr (details_field grant_data ''category'' ''categoryOfFunding''),
          ''OpportunityURL'' \<mapsto>
             PStr (''https://www.grants.gov/search-results-detail/'' @ opportunity_id),
          ''LastUpdated'' \<mapsto> PStr now])"

text \<open>
  The body to work on: that of the first endpoint when it answers 200, else that of the
  legacy endpoint when it answers 200. \<open>None\<close> when the function gives up or a call
  raises.
\<close>

definition details_response ::
  "grant_json http_result \<Rightarrow> grant_json http_result \<Rightarrow> grant_json option" where
  "details_response primary legacy =
     (case primary of
        Raised \<Rightarrow> None
      | Response status body \<Rightarrow>
          if status \<noteq> 200 then
            (case legacy of
               Raised \<Rightarrow> None
             | Response legacy_status legacy_body \<Rightarrow>
                 if legacy_status \<noteq> 200 then None else legacy_body)
          else body)"

text \<open>
  \<^verbatim>\<open>main\<close>, with the storage connection available: the table after the run.
  \<open>message\<close> is the decoded queue message and \<open>now\<close> the text of
  \<^verbatim>\<open>datetime.now().isoformat()\<close>. Every exception is caught and logged by the outer
  handler, and the table is then as before.
\<close>

definition get_grant_details_main ::
  "string \<Rightarrow> grant_json http_result \<Rightarrow> grant_json http_result \<Rightarrow> string \<Rightarrow> table \<Rightarrow> table" where
  "get_grant_details_main message primary legacy now tbl =
     (let opportunity_id = py_strip message
      in case details_response primary legacy of
           None \<Rightarrow> tbl
         | Some NestedBad \<Rightarrow> tbl
         | Some grant_data \<Rightarrow>
             (case upsert_entity (details_entity opportunity_id now grant_data) tbl of
                Inl e \<Rightarrow> tbl
              | Inr tbl' \<Rightarrow> tbl'))"


section \<open>The enhanced collector\<close>

text \<open>\<^verbatim>\<open>enhanced_grant_collector.py\<close>\<close>

definition clean_text :: "jval \<Rightarrow> string" where
  "clean_text text = (case text of JNull \<Rightarrow> [] | v \<Rightarrow> filter (\<lambda>c. c \<noteq> nul) (py_str v))"

record collector_state =
  table :: table
  processed_ids :: "jval set"
  total_grants_added :: nat

definition collector_entity :: "string \<Rightarrow> jval \<Rightarrow> (string \<rightharpoonup> jval) \<Rightarrow> (string \<rightharpoonup> pyval)" where
  "collector_entity now opportunity_id opportunity =
     (\<lambda>k. if k = ''RowKey'' then to_pyval opportunity_id
          else
           [''PartitionKey'' \<mapsto> PStr ''Grant'',
            ''Title'' \<mapsto> PStr (clean_text (get_or opportunity ''title'' [])),
            ''Number'' \<mapsto> PStr (clean_text (get_or opportunity ''number'' [])),
            ''AgencyCode'' \<mapsto> PStr (clean_text (get_or opportunity ''agencyCode'' [])),
            ''AgencyName'' \<mapsto> PStr (clean_text (get_or opportunity ''agency'' [])),
            ''Category'' \<mapsto> PStr (clean_text (get_or opportunity ''fundingCategory'' [])),
            ''CFDANumbers'' \<mapsto> PStr (clean_text (get_or opportunity ''cfda'' [])),
            ''Description'' \<mapsto>
               PStr (clean_text
                       (get_or opportunity ''description'' ''Retrieved from Grants.gov API'')),
            ''CloseDate'' \<mapsto> PStr (clean_text (get_or opportunity ''closeDate'' [])),
            ''OpenDate'' \<mapsto> PStr (clean_text (get_or opportunity ''openDate'' [])),
            ''AwardFloor'' \<mapsto> PStr (clean_text (get_or opportunity ''awardFloor'' [])),
            ''AwardCeiling'' \<mapsto> PStr (clean_text (get_or opportunity ''awardCeiling'' [])),
            ''ExpectedAwards'' \<mapsto>
               PStr (clean_text (get_or opportunity ''expectedNumOfAwards'' [])),
            ''DocType'' \<mapsto> PStr (clean_text (get_or opportunity ''docType'' [])),
            ''FundingType'' \<mapsto> PStr (clean_text (get_or opportunity ''fundingInstrument'' [])),
            ''LastUpdated'' \<mapsto> PStr now,
            ''OpportunityURL'' \<mapsto>
               PStr (''https://www.grants.gov/search-results-detail/''
                     @ py_str opportunity_id)] k)"

text \<open>
  The body of the loop over the opportunities of one page (lines 199 to 248). An
  exception of the table client is caught: the id stays in \<open>processed_ids\<close> and the
  counter is not advanced.
\<close>

definition process_opportunity ::
  "string \<Rightarrow> (string \<rightharpoonup> jval) \<Rightarrow> collector_state \<Rightarrow> collector_state" where
  "process_opportunity now opportunity st =
     (case opportunity ''id'' of
        None \<Rightarrow> st
      | Some opportunity_id \<Rightarrow>
          if \<not> jtruthy (Some opportunity_id) then st
          else if opportunity_id \<in> processed_ids st then st
          else
            (let st1 = st \<lparr> processed_ids := insert opportunity_id (processed_ids st) \<rparr>
             in case upsert_entity (collector_entity now opportunity_id opportunity)
                       (table st1) of
                  Inl e \<Rightarrow> st1
                | Inr tbl' \<Rightarrow>
                    st1 \<lparr> table := tbl',
                          total_grants_added := Suc (total_grants_added st1) \<rparr>))"

fun process_page ::
  "string \<Rightarrow> (string \<rightharpoonup> jval) list \<Rightarrow> collector_state \<Rightarrow> collector_state" where
  "process_page now [] st = st"
| "process_page now (opportunity # opportunities) st =
     process_page now opportunities (process_opportunity now opportunity st)"

fun process_pages ::
  "string \<Rightarrow> (string \<rightharpoonup> jval) list list \<Rightarrow> collector_state \<Rightarrow> collector_state" where
  "process_pages now [] st = st"
| "process_pages now (p # ps) st = process_pages now ps (process_page now p st)"

text \<open>
  The row keys already in the table are loaded into \<open>processed_ids\<close> before the first
  request; when that query raises, the set starts empty (\<open>query_ok\<close> is False).
\<close>

definition existing_ids :: "bool \<Rightarrow> table \<Rightarrow> jval set" where
  "existing_ids query_ok tbl =
     (if query_ok then (\<lambda>r. JStr (snd (fst r))) ` set (query_grants tbl) else {})"

text \<open>
  \<^verbatim>\<open>main\<close> on the pages that the search requests returned, in the order received.
\<close>

definition collector_main ::
  "string \<Rightarrow> bool \<Rightarrow> (string \<rightharpoonup> jval) list list \<Rightarrow> table \<Rightarrow> collector_state" where
  "collector_main now query_ok pages_received tbl =
     process_pages now pages_received
       \<lparr> table = tbl, processed_ids = existing_ids query_ok tbl, total_grants_added = 0 \<rparr>"


text \<open>The properties stored under a key, none when the table has no such row.\<close>

definition stored_props :: "table \<Rightarrow> string \<times> string \<Rightarrow> props" where
  "stored_props tbl key = (case map_of tbl key of None \<Rightarrow> Map.empty | Some p \<Rightarrow> p)"

text \<open>The properties that the entity of GetGrantDetails names, besides the two keys.\<close>

definition details_columns :: "string set" where
  "details_columns =
     {''Title'', ''AgencyName'', ''Description'', ''CloseDate'', ''PostDate'', ''AgencyCode'',
      ''AwardCeiling'', ''AwardFloor'', ''Category'', ''OpportunityURL'', ''LastUpdated''}"


section \<open>The repair pass of the resilient scraper\<close>

text \<open>
  \<^verbatim>\<open>resilient_grant_scraper.py\<close>. Its \<^verbatim>\<open>safe_float\<close> converts a number outside the
  \<^verbatim>\<open>try\<close> block, and its \<^verbatim>\<open>safe_int\<close> returns an integer, also a boolean, as it is.
\<close>

fun safe_float_scraper :: "jval \<Rightarrow> rat \<Rightarrow> py_error + rat" where
  "safe_float_scraper JNull dflt = Inr dflt"
| "safe_float_scraper (JInt n) dflt = float_of_int n"
| "safe_float_scraper (JBool b) dflt = Inr (if b then 1 else 0)"
| "safe_float_scraper (JStr s) dflt =
     (case py_float (keep_numeric s) of None \<Rightarrow> Inr dflt | Some r \<Rightarrow> Inr r)"

fun safe_int_scraper :: "jval \<Rightarrow> int \<Rightarrow> pyval" where
  "safe_int_scraper JNull dflt = PInt dflt"
| "safe_int_scraper (JInt n) dflt = PInt n"
| "safe_int_scraper (JBool b) dflt = PBool b"
| "safe_int_scraper (JStr s) dflt =
     (case py_int (filter (\<lambda>c. is_digit c \<or> c = CHR ''-'') s) of
        None \<Rightarrow> PInt dflt
      | Some n \<Rightarrow> PInt n)"

text \<open>\<^verbatim>\<open>x is None or x == 0 or x == '0' or x == '0.0'\<close>\<close>

definition is_missing :: "pyval option \<Rightarrow> bool" where
  "is_missing x =
     (case x of
        None \<Rightarrow> True
      | Some (PInt n) \<Rightarrow> n = 0
      | Some (PFloat r) \<Rightarrow> r = 0
      | Some (PBool b) \<Rightarrow> \<not> b
      | Some (PStr s) \<Rightarrow> s = ''0'' \<or> s = ''0.0'')"

text \<open>
  The state of \<^verbatim>\<open>fix_grant\<close> while it collects its changes: the dictionary
  \<open>updates\<close> and the flag \<open>modified\<close>.
\<close>

type_synonym fix_state = "props \<times> bool"

text \<open>Lines 622 to 630: the two names of the expected number of awards.\<close>

definition sync_expected_awards :: "props \<Rightarrow> fix_state \<Rightarrow> fix_state" where
  "sync_expected_awards entity f =
     (let f1 = (if \<not> ptruthy (entity ''ExpectedNumberofAwards'')
                    \<and> ptruthy (entity ''ExpectedAwards'')
                then ((fst f)(''ExpectedNumberofAwards'' := entity ''ExpectedAwards''), True)
                else f)
      in if \<not> ptruthy (entity ''ExpectedAwards'')
              \<and> ptruthy (entity ''ExpectedNumberofAwards'')
         then ((fst f1)(''ExpectedAwards'' := entity ''ExpectedNumberofAwards''), True)
         else f1)"

text \<open>
  An award amount read from a fetched record: converted, and kept when it passes the
  test (\<open>strict\<close> for the ceiling, which must be positive; the floor may be zero).
\<close>

definition take_amount :: "string \<Rightarrow> bool \<Rightarrow> jval \<Rightarrow> fix_state \<Rightarrow> py_error + fix_state" where
  "take_amount column strict v f =
     (case safe_float_scraper v 0 of
        Inl e \<Rightarrow> Inl e
      | Inr amount \<Rightarrow>
          if (if strict then amount > 0 else amount \<ge> 0)
          then Inr ((fst f)(column \<mapsto> PFloat amount), True)
          else Inr f)"

text \<open>Lines 641 to 665: what the scraped page supplies.\<close>

definition web_fixes :: "props \<Rightarrow> (string \<rightharpoonup> jval) \<Rightarrow> fix_state \<Rightarrow> py_error + fix_state" where
  "web_fixes entity web_data f =
     (case (case web_data ''awardCeiling'' of
              None \<Rightarrow> Inr f
            | Some v \<Rightarrow> take_amount ''AwardCeiling'' True v f) of
        Inl e \<Rightarrow> Inl e
      | Inr f1 \<Rightarrow>
         (case (case web_data ''awardFloor'' of
                  None \<Rightarrow> Inr f1
                | Some v \<Rightarrow> take_amount ''AwardFloor'' False v f1) of
            Inl e \<Rightarrow> Inl e
          | Inr f2 \<Rightarrow>
             (let f3 = (case web_data ''expectedNumOfAwards'' of
                          None \<Rightarrow> f2
                        | Some v \<Rightarrow>
                            ((fst f2)(''ExpectedNumberofAwards'' \<mapsto> safe_int_scraper v 0,
                                      ''ExpectedAwards'' \<mapsto> safe_int_scraper v 0), True));
                  f4 = (case web_data ''fundingInstrument'' of
                          None \<Rightarrow> f3
                        | Some v \<Rightarrow>
                            if \<not> ptruthy (entity ''FundingType'')
                            then ((fst f3)(''FundingType'' := to_pyval v), True)
                            else f3)
              in Inr f4)))"

text \<open>Lines 672 to 685: what the API record supplies, when it is consulted.\<close>

definition api_fixes :: "(string \<rightharpoonup> jval) \<Rightarrow> fix_state \<Rightarrow> py_error + fix_state" where
  "api_fixes api_data f =
     (case (if jtruthy (api_data ''awardCeiling'')
            then take_amount ''AwardCeiling'' True (get_or_none api_data ''awardCeiling'') f
            else Inr f) of
        Inl e \<Rightarrow> Inl e
      | Inr f1 \<Rightarrow>
          if jtruthy (api_data ''awardFloor'')
          then take_amount ''AwardFloor'' False (get_or_none api_data ''awardFloor'') f1
          else Inr f1)"

text \<open>
  Lines 633 to 695. \<open>web_data\<close> is what \<^verbatim>\<open>get_grant_details_from_web\<close> returned and
  \<open>api_data\<close> what \<^verbatim>\<open>get_api_grant_details\<close> returned (or would return), each a
  dictionary given by its list of entries. The API is consulted only when the page gave
  nothing that changed \<open>modified\<close>, and after an empty page its answer is dropped.
\<close>

definition fetch_fixes ::
  "props \<Rightarrow> (string \<times> jval) list \<Rightarrow> (string \<times> jval) list option \<Rightarrow> fix_state
     \<Rightarrow> py_error + fix_state" where
  "fetch_fixes entity web_data api_data f =
     (if web_data \<noteq> [] then
        (case web_fixes entity (map_of web_data) f of
           Inl e \<Rightarrow> Inl e
         | Inr f1 \<Rightarrow>
             if \<not> snd f1 then
               (case api_data of
                  None \<Rightarrow> Inr f1
                | Some d \<Rightarrow> if d \<noteq> [] then api_fixes (map_of d) f1 else Inr f1)
             else Inr f1)
      else Inr f)"

text \<open>Lines 697 to 701: "Ensure AwardFloor <= AwardCeiling".\<close>

definition ensure_floor_le_ceiling :: "props \<Rightarrow> props" where
  "ensure_floor_le_ceiling updates =
     (case updates ''AwardFloor'' of
        Some (PFloat floor_value) \<Rightarrow>
          (case updates ''AwardCeiling'' of
             Some (PFloat ceiling_value) \<Rightarrow>
               if floor_value > ceiling_value \<and> ceiling_value > 0
               then updates(''AwardFloor'' \<mapsto> PFloat ceiling_value,
                            ''AwardCeiling'' \<mapsto> PFloat floor_value)
               else updates
           | _ \<Rightarrow> updates)
      | _ \<Rightarrow> updates)"

text \<open>Lines 703 to 716: the defaults, when nothing was found.\<close>

definition default_amounts :: "bool \<Rightarrow> fix_state \<Rightarrow> fix_state" where
  "default_amounts needs_fix f =
     (if needs_fix \<and> \<not> snd f then
        (let f1 = (if fst f ''AwardCeiling'' = None
                   then ((fst f)(''AwardCeiling'' \<mapsto> PFloat 250000), True) else f);
             f2 = (if fst f1 ''AwardFloor'' = None
                   then ((fst f1)(''AwardFloor'' \<mapsto> PFloat 50000), True) else f1)
         in f2)
      else f)"

text \<open>
  \<^verbatim>\<open>fix_grant\<close>: the value returned and the table afterwards. Every exception is
  caught by the function and makes it return False with the table as it was.
\<close>

definition fix_grant ::
  "string \<Rightarrow> (string \<times> jval) list \<Rightarrow> (string \<times> jval) list option \<Rightarrow> string \<Rightarrow> table
     \<Rightarrow> bool \<times> table" where
  "fix_grant grant_id web_data api_data now tbl =
     (case get_entity ''Grant'' grant_id tbl of
        Inl e \<Rightarrow> (False, tbl)
      | Inr entity \<Rightarrow>
         (let needs_fix = (is_missing (entity ''AwardCeiling'')
                            \<or> is_missing (entity ''AwardFloor''));
              f0 = sync_expected_awards entity (Map.empty, False)
          in case (if needs_fix then fetch_fixes entity web_data api_data f0 else Inr f0) of
               Inl e \<Rightarrow> (False, tbl)
             | Inr f1 \<Rightarrow>
                (let f2 = default_amounts needs_fix (ensure_floor_le_ceiling (fst f1), snd f1)
                 in if snd f2 then
                      (case update_entity
                              ((fst f2)(''LastFixed'' \<mapsto> PStr now,
                                        ''PartitionKey'' \<mapsto> PStr ''Grant'',
                                        ''RowKey'' \<mapsto> PStr grant_id)) tbl of
                         Inl e \<Rightarrow> (False, tbl)
                       | Inr tbl' \<Rightarrow> (True, tbl'))
                    else (False, tbl))))"


section \<open>Fetching with retries\<close>

text \<open>
  \<^verbatim>\<open>resilient_grant_scraper.py\<close>, \<^verbatim>\<open>get_api_grant_details\<close> and
  \<^verbatim>\<open>get_grant_details_from_web\<close>. A source is given by the answers it returns to the
  successive requests: \<open>get retry\<close> is the answer to the request of attempt \<open>retry\<close>.
  The run is recorded as the list of requests made and of back-off pauses taken; a
  pause is recorded by its fixed part, two to the power of the attempt number, in
  seconds. The random part of a pause and the pause before every request are not
  recorded.
\<close>

datatype event = Request nat nat | Backoff nat

text \<open>
  The body of an API answer once decoded: not a JSON object, or an object with its
  \<^verbatim>\<open>errorcode\<close> (0 when absent) and the member the function looks for, if present.
\<close>

datatype 'a api_json = NotObject | ApiJson int "'a option"

text \<open>
  What one pass through the body of a retry loop does: return from the function, leave
  the loop, or go on to the next attempt after the pauses listed.
\<close>

datatype ('s, 'a) step = Return 'a | Break 's | Again 's "event list"

function retry_loop ::
  "(nat \<Rightarrow> 'r http_result) \<Rightarrow> (nat \<Rightarrow> nat \<Rightarrow> 's \<Rightarrow> 'r http_result \<Rightarrow> ('s, 'a) step)
     \<Rightarrow> nat \<Rightarrow> nat \<Rightarrow> nat \<Rightarrow> 's \<Rightarrow> ('a + 's) \<times> event list" where
  "retry_loop get body source max_retries retry st =
     (if max_retries \<le> retry then (Inr st, [])
      else
        (case body max_retries retry st (get retry) of
           Return a \<Rightarrow> (Inl a, [Request source retry])
         | Break st' \<Rightarrow> (Inr st', [Request source retry])
         | Again st' pauses \<Rightarrow>
             (case retry_loop get body source max_retries (Suc retry) st' of
                (r, trace) \<Rightarrow> (r, Request source retry # pauses @ trace))))"
  by pat_completeness auto
termination
  by (relation "measure (\<lambda>(get, body, source, max_retries, retry, st). max_retries - retry)")
    auto

declare retry_loop.simps [simp del]

text \<open>
  The exception handler of both API loops: pause and try again unless this was the
  last attempt.
\<close>

definition on_exception :: "nat \<Rightarrow> nat \<Rightarrow> 's \<Rightarrow> 'a \<Rightarrow> bool \<Rightarrow> ('s, 'a) step" where
  "on_exception max_retries retry st give_up returns =
     (if Suc retry < max_retries then Again st [Backoff (2 ^ retry)]
      else if returns then Return give_up else Break st)"

text \<open>Lines 515 to 551: one attempt on \<^verbatim>\<open>fetchOpportunity\<close>.\<close>

definition fetch_body ::
  "nat \<Rightarrow> nat \<Rightarrow> unit \<Rightarrow> 'a api_json http_result \<Rightarrow> (unit, 'a option) step" where
  "fetch_body max_retries retry st answer =
     (case answer of
        Raised \<Rightarrow> on_exception max_retries retry st None False
      | Response status body \<Rightarrow>
          if status = 403 \<or> status = 429 then Again st [Backoff (2 ^ retry)]
          else if status = 200 then
            (case body of
               None \<Rightarrow> on_exception max_retries retry st None False
             | Some NotObject \<Rightarrow> on_exception max_retries retry st None False
             | Some (ApiJson errorcode data) \<Rightarrow>
                 if errorcode \<noteq> 0 then Break st
                 else (case data of Some d \<Rightarrow> Return (Some d) | None \<Rightarrow> Break st))
          else Break st)"

text \<open>Lines 554 to 600: one attempt on the search endpoint.\<close>

definition search_body ::
  "nat \<Rightarrow> nat \<Rightarrow> unit \<Rightarrow> 'a list api_json http_result \<Rightarrow> (unit, 'a option) step" where
  "search_body max_retries retry st answer =
     (case answer of
        Raised \<Rightarrow> on_exception max_retries retry st None True
      | Response status body \<Rightarrow>
          if status = 403 \<or> status = 429 then
            (if Suc retry < max_retries then Again st [Backoff (2 ^ retry)] else Return None)
          else if status = 200 then
            (case body of
               None \<Rightarrow> on_exception max_retries retry st None True
             | Some NotObject \<Rightarrow> on_exception max_retries retry st None True
             | Some (ApiJson errorcode hits) \<Rightarrow>
                 if errorcode \<noteq> 0 then Return None
                 else (case hits of
                         Some (h # hs) \<Rightarrow> Return (Some h)
                       | _ \<Rightarrow> Return None))
          else Return None)"

text \<open>
  \<^verbatim>\<open>get_api_grant_details\<close>: the record returned, if any, and the run. Source 0 is
  \<^verbatim>\<open>fetchOpportunity\<close>, source 1 the search endpoint.
\<close>

definition get_api_grant_details ::
  "(nat \<Rightarrow> 'a api_json http_result) \<Rightarrow> (nat \<Rightarrow> 'a list api_json http_result) \<Rightarrow> nat
     \<Rightarrow> 'a option \<times> event list" where
  "get_api_grant_details fetch search max_retries =
     (case retry_loop fetch fetch_body 0 max_retries 0 () of
        (Inl found, trace) \<Rightarrow> (found, trace)
      | (Inr u, trace) \<Rightarrow>
          (case retry_loop search search_body 1 max_retries 0 () of
             (Inl found, trace') \<Rightarrow> (found, trace @ trace')
           | (Inr u', trace') \<Rightarrow> (None, trace @ trace')))"

text \<open>
  \<^verbatim>\<open>get_grant_details_from_web\<close>. The body of a page answer is the list of entries
  that the four extraction passes read from the page; \<open>grant_data\<close> collects them
  across pages, later entries first.
\<close>

definition data_has_required_fields :: "(string \<times> jval) list \<Rightarrow> bool" where
  "data_has_required_fields data =
     (map_of data ''awardCeiling'' \<noteq> None \<or> map_of data ''awardFloor'' \<noteq> None
      \<or> map_of data ''expectedNumOfAwards'' \<noteq> None)"

text \<open>Lines 173 to 230: one attempt on one page address.\<close>

definition web_body ::
  "nat \<Rightarrow> nat \<Rightarrow> (string \<times> jval) list \<Rightarrow> (string \<times> jval) list http_result
     \<Rightarrow> ((string \<times> jval) list, (string \<times> jval) list) step" where
  "web_body max_retries retry grant_data answer =
     (case answer of
        Raised \<Rightarrow> Again grant_data []
      | Response status body \<Rightarrow>
          if status = 200 then
            (case body of
               None \<Rightarrow> Again grant_data []
             | Some extracted \<Rightarrow>
                 if data_has_required_fields (extracted @ grant_data)
                 then Return (extracted @ grant_data)
                 else Break (extracted @ grant_data))
          else if status = 403 \<or> status = 429 then Again grant_data [Backoff (2 ^ retry)]
          else Break grant_data)"

fun web_urls ::
  "(nat \<Rightarrow> nat \<Rightarrow> (string \<times> jval) list http_result) \<Rightarrow> nat \<Rightarrow> nat list
     \<Rightarrow> (string \<times> jval) list \<Rightarrow> (string \<times> jval) list \<times> event list" where
  "web_urls get max_retries [] grant_data = (grant_data, [])"
| "web_urls get max_retries (url # urls) grant_data =
     (case retry_loop (get url) web_body url max_retries 0 grant_data of
        (Inl found, trace) \<Rightarrow> (found, trace)
      | (Inr grant_data', trace) \<Rightarrow>
          (case web_urls get max_retries urls grant_data' of
             (r, trace') \<Rightarrow> (r, trace @ trace')))"

definition get_grant_details_from_web ::
  "(nat \<Rightarrow> nat \<Rightarrow> (string \<times> jval) list http_result) \<Rightarrow> nat
     \<Rightarrow> (string \<times> jval) list \<times> event list" where
  "get_grant_details_from_web get max_retries = web_urls get max_retries [0, 1, 2] []"

text \<open>The requests of a run that went to one source.\<close>

definition requests_to :: "nat \<Rightarrow> event list \<Rightarrow> nat" where
  "requests_to source trace =
     length (filter (\<lambda>e. case e of Request s retry \<Rightarrow> s = source | Backoff n \<Rightarrow> False) trace)"

text \<open>Answers used in the examples: the same status at every attempt, or a list of answers.\<close>

definition answers :: "'r http_result list \<Rightarrow> nat \<Rightarrow> 'r http_result" where
  "answers xs retry = (if retry < length xs then xs ! retry else Raised)"


section \<open>Properties of the built-ins\<close>

lemma int_body_digits:
  "\<forall>c \<in> set cs. is_digit c \<Longrightarrow>
     int_body cs acc = Some (foldl (\<lambda>a c. 10 * a + digit_val c) acc cs)"
  by (induction cs acc rule: int_body.induct) simp_all

lemma digit_not_space: "is_digit c \<Longrightarrow> \<not> int_isspace c"
  by (auto simp: is_digit_def int_isspace_def Let_def)

lemma digit_not_sign: "is_digit c \<Longrightarrow> c \<noteq> CHR ''-'' \<and> c \<noteq> CHR ''+''"
  by (auto simp: is_digit_def)

lemma dropWhile_digits:
  assumes "\<forall>c \<in> set s. is_digit c"
  shows "rev (dropWhile int_isspace (rev (dropWhile int_isspace s))) = s"
proof -
  have a: "dropWhile int_isspace s = s"
    using assms by (cases s) (simp_all add: digit_not_space)
  have "dropWhile int_isspace (rev s) = rev s"
    using assms by (cases "rev s") (simp_all add: digit_not_space)
  with a show ?thesis by simp
qed

lemma py_int_digits:
  assumes "s \<noteq> []" and "\<forall>c \<in> set s. is_digit c" and "length s \<le> 4300"
  shows "py_int s = Some (int (digits_nat s))"
proof -
  from assms(1) obtain c cs where s: "s = c # cs" by (cases s) auto
  from assms(2) have f: "filter is_digit s = s" by (simp add: filter_id_conv)
  from assms(2) s have c: "is_digit c" and cs: "\<forall>c \<in> set cs. is_digit c" by simp_all
  have "int_unsigned (c # cs) = Some (digits_nat s)"
    using c by (simp add: int_unsigned_def int_body_digits [OF cs] digits_nat_def s)
  then show ?thesis
    using assms(3) digit_not_sign [OF c]
    by (simp add: py_int_def dropWhile_digits [OF assms(2)] f max_str_digits_def Let_def)
      (simp add: s)
qed

lemma digits_nat_zeros:
  "foldl (\<lambda>a c. 10 * a + digit_val c) acc (replicate n CHR ''0'') = acc * 10 ^ n"
  by (induction n arbitrary: acc) (simp_all add: digit_val_def)

lemma str_raises_small: "\<bar>n\<bar> < 10000 \<Longrightarrow> \<not> str_raises n"
proof -
  assume a: "\<bar>n\<bar> < 10000"
  have "(10::int) ^ 4 \<le> 10 ^ max_str_digits"
    unfolding max_str_digits_def by (rule power_increasing) simp_all
  moreover have "(10::int) ^ 4 = 10000" by simp
  ultimately show ?thesis using a by (simp add: str_raises_def)
qed

lemma py_int_100: "py_int ''100'' = Some 100"
  by (simp add: py_int_def int_isspace_def max_str_digits_def int_unsigned_def is_digit_def
      digit_val_def)

section \<open>Properties of the viewer's pagination\<close>

lemma parse_limit_range: "1 \<le> parse_limit p \<and> parse_limit p \<le> 10000"
  by (simp add: parse_limit_def split: option.splits)

lemma parse_page_ge: "1 \<le> parse_page p"
  by (simp add: parse_page_def split: option.splits)

lemma py_slice_page:
  assumes "0 \<le> a" and "0 \<le> l"
  shows "py_slice xs a (a + l) = take (nat l) (drop (nat a) xs)"
proof (cases "nat a \<le> length xs")
  case True
  with assms show ?thesis
    by (auto simp: py_slice_def slice_bound_def Let_def min_def nat_add_distrib)
next
  case False
  with assms show ?thesis
    by (simp add: py_slice_def slice_bound_def Let_def min_def)
qed

lemma ceil_div_int:
  fixes t l :: int
  assumes "0 < l"
  shows "(t + l - 1) div l = - ((- t) div l)"
proof -
  define q where "q = t div l"
  define r where "r = t mod l"
  have t: "t = q * l + r" by (simp add: q_def r_def)
  have r: "0 \<le> r" "r < l" using assms by (simp_all add: r_def)
  show ?thesis
  proof (cases "r = 0")
    case True
    have "(t + l - 1) div l = (q * l + (l - 1)) div l" using t True by (simp add: algebra_simps)
    also have "\<dots> = q + (l - 1) div l" using assms by simp
    also have "(l - 1) div l = 0" using assms by simp
    finally have a: "(t + l - 1) div l = q" by simp
    have "- t = (- q) * l" using t True by simp
    hence "(- t) div l = ((- q) * l) div l" by (rule arg_cong)
    also have "\<dots> = - q"
      using assms nonzero_mult_div_cancel_right [of l "- q"] by linarith
    finally show ?thesis using a by simp
  next
    case False
    hence rp: "0 < r" using r by simp
    have "(t + l - 1) div l = ((q + 1) * l + (r - 1)) div l"
      using t by (simp add: algebra_simps)
    also have "\<dots> = (q + 1) + (r - 1) div l" using assms by (simp only: div_mult_self3)
    also have "(r - 1) div l = 0" using r rp by simp
    finally have a: "(t + l - 1) div l = q + 1" by simp
    have "(- t) div l = ((- q - 1) * l + (l - r)) div l" using t by (simp add: algebra_simps)
    also have "\<dots> = (- q - 1) + (l - r) div l" using assms by (simp only: div_mult_self3)
    also have "(l - r) div l = 0" using r rp by simp
    finally show ?thesis using a by simp
  qed
qed

lemma total_pages_ceiling:
  "0 < l \<Longrightarrow> 0 < t \<Longrightarrow> total_pages t l = \<lceil>(of_int t :: rat) / of_int l\<rceil>"
  unfolding total_pages_def by (simp add: ceiling_divide_eq_div ceil_div_int)

lemma total_pages_ge_1: "0 < l \<Longrightarrow> 1 \<le> total_pages t l"
proof (cases "0 < t")
  case True
  assume l: "0 < l"
  with True have "l \<le> t + l - 1" by simp
  with l have "0 < (t + l - 1) div l" by (simp add: pos_imp_zdiv_pos_iff)
  with True show ?thesis by (simp add: total_pages_def)
next
  case False
  then show ?thesis by (simp add: total_pages_def)
qed

lemma py_int_10: "py_int ''10'' = Some 10"
  by (simp add: py_int_def int_isspace_def max_str_digits_def int_unsigned_def is_digit_def
      digit_val_def)

lemma py_int_2: "py_int ''2'' = Some 2"
  by (simp add: py_int_def int_isspace_def max_str_digits_def int_unsigned_def is_digit_def
      digit_val_def)

lemma parse_limit_10: "parse_limit (Some ''10'') = 10"
  by (simp add: parse_limit_def param_get_def py_int_10)

lemma parse_page_2: "parse_page (Some ''2'') = 2"
  by (simp add: parse_page_def param_get_def py_int_2)

lemma paginate_grants:
  "grants (paginate lp pp xs) =
     take (nat (parse_limit lp)) (drop (nat ((parse_page pp - 1) * parse_limit lp)) xs)"
proof -
  have "0 \<le> (parse_page pp - 1) * parse_limit lp"
    using parse_limit_range [of lp] parse_page_ge [of pp] by simp
  moreover have "0 \<le> parse_limit lp" using parse_limit_range [of lp] by simp
  ultimately show ?thesis by (simp add: paginate_def Let_def py_slice_page)
qed

lemma paginate_pages:
  "pages (paginate lp pp xs) = total_pages (int (length xs)) (parse_limit lp)"
  by (simp add: paginate_def Let_def)

text \<open>
  C5, as stated, fails when nothing matches: the ceiling of 0/10 is 0, and the viewer
  reports one page.
\<close>

theorem pages_not_ceiling_when_empty:
  "pages (paginate (Some ''10'') (Some ''2'') ([] :: nat list))
     \<noteq> \<lceil>rat_of_int (total (paginate (Some ''10'') (Some ''2'') ([] :: nat list)))
          / rat_of_int (limit (paginate (Some ''10'') (Some ''2'') ([] :: nat list)))\<rceil>"
  by (simp add: paginate_def Let_def total_pages_def parse_limit_10)

text \<open>
  C5, amended: the page returned is the slice of the filtered list from index
  (page - 1) * limit up to page * limit; the page count is the ceiling of total / limit
  when at least one record matches, and 1 when none does. With 25 matching records,
  page=2 and limit=10 give the records at positions 11 to 20 and three pages.
\<close>

theorem paginate_slice_and_pages:
  "grants (paginate lp pp xs) =
     take (nat (parse_limit lp)) (drop (nat ((parse_page pp - 1) * parse_limit lp)) xs)
   \<and> pages (paginate lp pp xs) =
     (if xs = [] then 1
      else \<lceil>rat_of_int (int (length xs)) / rat_of_int (parse_limit lp)\<rceil>)
   \<and> (length xs = 25 \<longrightarrow>
        grants (paginate (Some ''10'') (Some ''2'') xs) = map (\<lambda>i. xs ! i) [10..<20]
        \<and> pages (paginate (Some ''10'') (Some ''2'') xs) = 3)"
proof (intro conjI impI)
  show "grants (paginate lp pp xs) =
     take (nat (parse_limit lp)) (drop (nat ((parse_page pp - 1) * parse_limit lp)) xs)"
    by (rule paginate_grants)
next
  show "pages (paginate lp pp xs) =
     (if xs = [] then 1
      else \<lceil>rat_of_int (int (length xs)) / rat_of_int (parse_limit lp)\<rceil>)"
  proof (cases "xs = []")
    case True
    then show ?thesis by (simp add: paginate_pages total_pages_def)
  next
    case False
    hence "0 < int (length xs)" by simp
    moreover have "0 < parse_limit lp" using parse_limit_range [of lp] by simp
    ultimately show ?thesis using False
      by (simp only: paginate_pages total_pages_ceiling if_False)
  qed
next
  assume len: "length xs = 25"
  have "take 10 (drop 10 xs) = map (\<lambda>i. xs ! i) [10..<20]"
  proof (rule nth_equalityI)
    show "length (take 10 (drop 10 xs)) = length (map (\<lambda>i. xs ! i) [10..<20])"
      using len by simp
  next
    fix i assume "i < length (take 10 (drop 10 xs))"
    hence i: "i < 10" by simp
    have a: "take 10 (drop 10 xs) ! i = xs ! (10 + i)" using i len by simp
    have b: "map (\<lambda>i. xs ! i) [10..<20] ! i = xs ! ([10..<20] ! i)"
    proof (rule nth_map)
      show "i < length [10..<20]" unfolding length_upt using i by simp
    qed
    have c: "[10..<20] ! i = 10 + i" using i by (intro nth_upt) simp
    show "take 10 (drop 10 xs) ! i = map (\<lambda>i. xs ! i) [10..<20] ! i"
      by (simp only: a b c)
  qed
  then show "grants (paginate (Some ''10'') (Some ''2'') xs) = map (\<lambda>i. xs ! i) [10..<20]"
    by (simp add: paginate_grants parse_limit_10 parse_page_2)
next
  assume len: "length xs = 25"
  show "pages (paginate (Some ''10'') (Some ''2'') xs) = 3"
    using len by (simp add: paginate_pages parse_limit_10 total_pages_def)
qed

theorem paginate_slice_and_pages_witness:
  "length [1, 2, 3, 4, 5, 6, 7, 8, 9, 10, 11, 12, 13, 14, 15, 16, 17, 18, 19, 20,
           21, 22, 23, 24, 25 :: nat] = 25
   \<and> grants (paginate (Some ''10'') (Some ''2'')
        [1, 2, 3, 4, 5, 6, 7, 8, 9, 10, 11, 12, 13, 14, 15, 16, 17, 18, 19, 20,
         21, 22, 23, 24, 25 :: nat])
      = [11, 12, 13, 14, 15, 16, 17, 18, 19, 20]
   \<and> pages (paginate (Some ''10'') (Some ''2'')
        [1, 2, 3, 4, 5, 6, 7, 8, 9, 10, 11, 12, 13, 14, 15, 16, 17, 18, 19, 20,
         21, 22, 23, 24, 25 :: nat]) = 3"
  using paginate_slice_and_pages [of "Some ''10''" "Some ''2''"
      "[1, 2, 3, 4, 5, 6, 7, 8, 9, 10, 11, 12, 13, 14, 15, 16, 17, 18, 19, 20,
        21, 22, 23, 24, 25 :: nat]"]
  by (simp add: upt_rec_numeral parse_limit_10 parse_page_2)

lemma page_digits: "\<forall>c \<in> set (CHR ''1'' # replicate 4299 CHR ''0''). is_digit c"
    by (auto simp: is_digit_def)

lemma digit_val_1: "digit_val CHR ''1'' = 1" by (simp add: digit_val_def)

lemma page_digits_nat: "digits_nat (CHR ''1'' # replicate 4299 CHR ''0'') = 10 ^ 4299"
    unfolding digits_nat_def by (simp add: digits_nat_zeros digit_val_1 del: power_numeral)

lemma py_int_page: "py_int (CHR ''1'' # replicate 4299 CHR ''0'') = Some (10 ^ 4299)"
proof -
  have "length (CHR ''1'' # replicate 4299 CHR ''0'') \<le> 4300" by simp
  from py_int_digits [OF _ page_digits this] show ?thesis
    unfolding page_digits_nat by (simp del: power_numeral)
qed

text \<open>
  C6 fails on a request whose page parameter is so long that the offset has more than
  4300 digits. A page of 4300 digits is read as it stands and the limit is the default
  100; the offset then has 4301 digits, the formatted string of the log line cannot be
  built, and the handler answers 500. The same request with page 1 is answered with
  the envelope.
\<close>

theorem page_of_4300_digits_fails:
  "parse_page (Some (CHR ''1'' # replicate 4299 CHR ''0'')) = 10 ^ 4299
   \<and> parse_limit None = 100
   \<and> viewer_main (Some ''UseDevelopmentStorage=true'') None
       (Some (CHR ''1'' # replicate 4299 CHR ''0'')) [1, 2, 3 :: nat]
     = Failed 500
   \<and> viewer_main (Some ''UseDevelopmentStorage=true'') None (Some ''1'') [1, 2, 3 :: nat]
     = Ok \<lparr> total = 3, page = 1, limit = 100, pages = 1, grants = [1, 2, 3] \<rparr>"
proof -
  define x :: int where "x = 10 ^ 4299"
  have i': "py_int (CHR ''1'' # replicate 4299 CHR ''0'') = Some x"
    unfolding x_def by (rule py_int_page)
  have x1: "1 \<le> x" unfolding x_def by (rule one_le_power) simp
  have pp: "parse_page (Some (CHR ''1'' # replicate 4299 CHR ''0'')) = x"
    using x1 by (simp add: parse_page_def param_get_def i')
  have pl: "parse_limit None = 100"
    by (simp add: parse_limit_def param_get_def py_int_100)
  have m: "(10::int) ^ max_str_digits = 10 * x"
  proof -
    have "max_str_digits = Suc 4299" by (simp add: max_str_digits_def)
    hence "(10::int) ^ max_str_digits = 10 ^ Suc 4299" by (rule arg_cong)
    then show ?thesis unfolding x_def by (simp only: power_Suc)
  qed
  have "(10::int) ^ 1 \<le> 10 ^ 4299" by (rule power_increasing) simp_all
  hence x10: "10 \<le> x" unfolding x_def by (simp only: power_one_right)
  have r: "str_raises ((x - 1) * 100)"
    unfolding str_raises_def m using x10 by simp
  have f: "viewer_main (Some ''UseDevelopmentStorage=true'') None
       (Some (CHR ''1'' # replicate 4299 CHR ''0'')) [1, 2, 3 :: nat] = Failed 500"
    using r by (simp add: viewer_main_def pp pl)
  have p1: "parse_page (Some ''1'') = 1"
    by (simp add: parse_page_def param_get_def py_int_def int_isspace_def max_str_digits_def
        int_unsigned_def is_digit_def digit_val_def)
  have "\<not> str_raises ((1 - 1) * 100)" by (rule str_raises_small) simp
  hence g: "viewer_main (Some ''UseDevelopmentStorage=true'') None (Some ''1'') [1, 2, 3 :: nat]
     = Ok \<lparr> total = 3, page = 1, limit = 100, pages = 1, grants = [1, 2, 3] \<rparr>"
    by (simp add: viewer_main_def paginate_def Let_def p1 pl total_pages_def py_slice_def
        slice_bound_def)
  from pp pl f g show ?thesis unfolding x_def by (intro conjI)
qed

text \<open>
  C10: every envelope the viewer returns reports at least one page; when no record
  matches the filters it carries pages = 1, total = 0 and an empty list of grants.
\<close>

theorem pages_at_least_one:
  "viewer_main cs lp pp xs = Ok env \<Longrightarrow>
     1 \<le> pages env
     \<and> (xs = [] \<longrightarrow> pages env = 1 \<and> total env = 0 \<and> grants env = [])"
proof -
  assume a: "viewer_main cs lp pp xs = Ok env"
  hence env: "env = paginate lp pp xs"
    by (auto simp: viewer_main_def split: option.splits if_splits)
  have "0 < parse_limit lp" using parse_limit_range [of lp] by simp
  hence "1 \<le> pages env" by (simp add: env paginate_pages total_pages_ge_1)
  moreover have "xs = [] \<longrightarrow> pages env = 1 \<and> total env = 0 \<and> grants env = []"
    by (simp add: env paginate_def Let_def total_pages_def py_slice_def)
  ultimately show ?thesis by simp
qed

theorem pages_at_least_one_witness:
  "viewer_main (Some ''UseDevelopmentStorage=true'') (Some ''10'') (Some ''2'')
       ([] :: nat list)
     = Ok \<lparr> total = 0, page = 2, limit = 10, pages = 1, grants = [] \<rparr>
   \<and> 1 \<le> pages \<lparr> total = 0, page = 2, limit = 10, pages = 1, grants = ([] :: nat list) \<rparr>"
proof -
  have v: "viewer_main (Some ''UseDevelopmentStorage=true'') (Some ''10'') (Some ''2'')
       ([] :: nat list)
     = Ok \<lparr> total = 0, page = 2, limit = 10, pages = 1, grants = [] \<rparr>"
    using str_raises_small [of "(2 - 1) * 10"]
    by (simp add: viewer_main_def paginate_def Let_def parse_limit_10 parse_page_2
        total_pages_def py_slice_def)
  from pages_at_least_one [OF v] v show ?thesis by simp
qed

section \<open>Properties of the numeric coercion\<close>

text \<open>
  C4: \<^verbatim>\<open>safe_float\<close> gives 1500000.0 for "$1,500,000" and for "1500000", and the
  default for the empty string and for \<^verbatim>\<open>None\<close>. On every string it returns a
  number and raises nothing; when what is left of the string after cleaning is not a
  number, the number returned is the default.
\<close>

theorem safe_float_currency:
  "safe_float (JStr ''$1,500,000'') d = Inr 1500000
   \<and> safe_float (JStr ''1500000'') d = Inr 1500000
   \<and> safe_float (JStr '''') d = Inr d
   \<and> safe_float JNull d = Inr d
   \<and> (\<exists>r. safe_float (JStr s) d = Inr r)
   \<and> (py_float (keep_numeric (filter (\<lambda>c. c \<noteq> CHR '','') (filter (\<lambda>c. c \<noteq> CHR ''$'') s)))
         = None \<longrightarrow> safe_float (JStr s) d = Inr d)"
proof (intro conjI impI)
  show "safe_float (JStr ''$1,500,000'') d = Inr 1500000"
    by (simp add: keep_numeric_def py_float_def float_unsigned_def is_digit_def
        digits_nat_def digit_val_def)
  show "safe_float (JStr ''1500000'') d = Inr 1500000"
    by (simp add: keep_numeric_def py_float_def float_unsigned_def is_digit_def
        digits_nat_def digit_val_def)
  show "safe_float (JStr '''') d = Inr d"
    by (simp add: keep_numeric_def)
  show "safe_float JNull d = Inr d"
    by simp
  show "\<exists>r. safe_float (JStr s) d = Inr r"
    by (simp add: Let_def split: option.splits)
next
  assume "py_float (keep_numeric (filter (\<lambda>c. c \<noteq> CHR '','') (filter (\<lambda>c. c \<noteq> CHR ''$'') s)))
         = None"
  then show "safe_float (JStr s) d = Inr d"
    by (simp add: Let_def)
qed

theorem safe_float_currency_witness:
  "py_float (keep_numeric (filter (\<lambda>c. c \<noteq> CHR '','') (filter (\<lambda>c. c \<noteq> CHR ''$'') ''1.2.3'')))
     = None
   \<and> safe_float (JStr ''1.2.3'') 0 = Inr 0
   \<and> safe_float (JStr ''$1,500,000'') 0 = Inr 1500000"
proof -
  have n: "py_float (keep_numeric
      (filter (\<lambda>c. c \<noteq> CHR '','') (filter (\<lambda>c. c \<noteq> CHR ''$'') ''1.2.3''))) = None"
    by (simp add: keep_numeric_def py_float_def float_unsigned_def is_digit_def)
  from safe_float_currency [of 0 "''1.2.3''"] n show ?thesis by blast
qed


section \<open>Properties of the retention cleanup\<close>

lemma below_ten:
  "(k::nat) < 10 \<Longrightarrow>
     k = 0 \<or> k = 1 \<or> k = 2 \<or> k = 3 \<or> k = 4 \<or> k = 5 \<or> k = 6 \<or> k = 7 \<or> k = 8 \<or> k = 9"
  by arith

lemma digit_table:
  assumes "k < 10"
  shows "(of_char (''0123456789'' ! k) :: nat) = 48 + k"
  using below_ten [OF assms] by (elim disjE) simp_all

lemma of_char_digit: "(of_char (digit_char n) :: nat) = 48 + n mod 10"
  unfolding digit_char_def by (rule digit_table) simp

lemma digit_char_eq: "digit_char a = digit_char b \<longleftrightarrow> a mod 10 = b mod 10"
proof
  assume "digit_char a = digit_char b"
  hence "(of_char (digit_char a) :: nat) = of_char (digit_char b)" by simp
  thus "a mod 10 = b mod 10" by (simp add: of_char_digit)
qed (simp add: digit_char_def)

lemma base_eq:
  fixes a b k :: nat
  shows "a = b \<longleftrightarrow> a div k = b div k \<and> a mod k = b mod k"
  by (metis div_mult_mod_eq)

lemma base_less:
  fixes a b k :: nat
  assumes "0 < k"
  shows "a < b \<longleftrightarrow> a div k < b div k \<or> (a div k = b div k \<and> a mod k < b mod k)"
proof
  assume ab: "a < b"
  hence le: "a div k \<le> b div k" by (simp add: div_le_mono)
  show "a div k < b div k \<or> (a div k = b div k \<and> a mod k < b mod k)"
  proof (cases "a div k = b div k")
    case True
    have "a = k * (a div k) + a mod k" "b = k * (b div k) + b mod k" by simp_all
    with ab True have "a mod k < b mod k" by (metis nat_add_left_cancel_less)
    with True show ?thesis by simp
  next
    case False
    with le show ?thesis by simp
  qed
next
  assume h: "a div k < b div k \<or> (a div k = b div k \<and> a mod k < b mod k)"
  show "a < b"
  proof (rule ccontr)
    assume "\<not> a < b"
    hence ba: "b \<le> a" by simp
    hence le: "b div k \<le> a div k" by (simp add: div_le_mono)
    with h have eq: "a div k = b div k" and m: "a mod k < b mod k" by auto
    have "a = k * (a div k) + a mod k" "b = k * (b div k) + b mod k" by simp_all
    with eq m have "a < b" by (metis nat_add_left_cancel_less)
    with ba show False by simp
  qed
qed

text \<open>Zero-padded fields of equal width compare as their numbers do.\<close>

lemma lex_two_levels:
  assumes "l \<longleftrightarrow> hl \<or> (he \<and> ll)" and "e \<longleftrightarrow> he \<and> le"
  shows "(hl \<or> he \<and> (ll \<or> le \<and> rest)) \<longleftrightarrow> (l \<or> (e \<and> rest))"
  using assms by blast

lemma str_lt_pad2:
  assumes "a < 100" "b < 100"
  shows "str_lt (pad2 a @ r) (pad2 b @ s) \<longleftrightarrow> a < b \<or> (a = b \<and> str_lt r s)"
proof -
  have "a div 10 < 10" "b div 10 < 10" using assms by simp_all
  hence m: "a div 10 mod 10 = a div 10" "b div 10 mod 10 = b div 10" by simp_all
  have l: "a < b \<longleftrightarrow> a div 10 < b div 10 \<or> (a div 10 = b div 10 \<and> a mod 10 < b mod 10)"
    by (rule base_less) simp
  have e: "a = b \<longleftrightarrow> a div 10 = b div 10 \<and> a mod 10 = b mod 10"
    by (rule base_eq)
  have "str_lt (pad2 a @ r) (pad2 b @ s) \<longleftrightarrow>
     (a div 10 < b div 10 \<or> a div 10 = b div 10 \<and>
         (a mod 10 < b mod 10 \<or> a mod 10 = b mod 10 \<and> str_lt r s))"
    unfolding pad2_def by (simp add: of_char_digit digit_char_eq m)
  also have "\<dots> \<longleftrightarrow> a < b \<or> (a = b \<and> str_lt r s)"
    by (rule lex_two_levels [OF l e])
  finally show ?thesis .
qed

lemma str_lt_sep: "str_lt (c # r) (c # s) = str_lt r s"
  by simp

lemma str_lt_pad4:
  assumes "a < 10000" "b < 10000"
  shows "str_lt (pad4 a @ r) (pad4 b @ s) \<longleftrightarrow> a < b \<or> (a = b \<and> str_lt r s)"
proof -
  have d: "a div 100 < 100" "b div 100 < 100" "a mod 100 < 100" "b mod 100 < 100"
    using assms by simp_all
  have l: "a < b \<longleftrightarrow>
        a div 100 < b div 100 \<or> (a div 100 = b div 100 \<and> a mod 100 < b mod 100)"
    by (rule base_less) simp
  have e: "a = b \<longleftrightarrow> a div 100 = b div 100 \<and> a mod 100 = b mod 100"
    by (rule base_eq)
  have "str_lt (pad4 a @ r) (pad4 b @ s) \<longleftrightarrow>
     (a div 100 < b div 100 \<or> a div 100 = b div 100 \<and>
         (a mod 100 < b mod 100 \<or> a mod 100 = b mod 100 \<and> str_lt r s))"
    unfolding pad4_def append_assoc
    by (simp only: str_lt_pad2 [OF d(1,2)] str_lt_pad2 [OF d(3,4)])
  also have "\<dots> \<longleftrightarrow> a < b \<or> (a = b \<and> str_lt r s)"
    by (rule lex_two_levels [OF l e])
  finally show ?thesis .
qed

lemma str_lt_pad6:
  assumes "a < 1000000" "b < 1000000"
  shows "str_lt (pad6 a @ r) (pad6 b @ s) \<longleftrightarrow> a < b \<or> (a = b \<and> str_lt r s)"
proof -
  have d: "a div 10000 < 100" "b div 10000 < 100" "a mod 10000 < 10000"
    "b mod 10000 < 10000"
    using assms by simp_all
  have l: "a < b \<longleftrightarrow> a div 10000 < b div 10000
        \<or> (a div 10000 = b div 10000 \<and> a mod 10000 < b mod 10000)"
    by (rule base_less) simp
  have e: "a = b \<longleftrightarrow> a div 10000 = b div 10000 \<and> a mod 10000 = b mod 10000"
    by (rule base_eq)
  have "str_lt (pad6 a @ r) (pad6 b @ s) \<longleftrightarrow>
     (a div 10000 < b div 10000 \<or> a div 10000 = b div 10000 \<and>
         (a mod 10000 < b mod 10000 \<or> a mod 10000 = b mod 10000 \<and> str_lt r s))"
    unfolding pad6_def append_assoc
    by (simp only: str_lt_pad2 [OF d(1,2)] str_lt_pad4 [OF d(3,4)])
  also have "\<dots> \<longleftrightarrow> a < b \<or> (a = b \<and> str_lt r s)"
    by (rule lex_two_levels [OF l e])
  finally show ?thesis .
qed

lemma iso_max_form:
  "datetime_max_iso = pad4 9999 @ ''-'' @ pad2 12 @ ''-'' @ pad2 31 @ ''T''
     @ pad2 23 @ '':'' @ pad2 59 @ '':'' @ pad2 59 @ ''.'' @ pad6 999999"
  by (simp add: datetime_max_iso_def pad4_def pad2_def pad6_def digit_char_def)

lemma days_in_month_le: "days_in_month y m \<le> 31"
  by (simp add: days_in_month_def)

text \<open>
  The text of \<^verbatim>\<open>datetime.max\<close> against the ISO text of a datetime, field by field.
\<close>

lemma str_lt_max_fields:
  assumes "y < 10000" "mo < 100" "d < 100" "h < 100" "mi < 100" "s < 100"
  shows "str_lt datetime_max_iso
           (pad4 y @ ''-'' @ pad2 mo @ ''-'' @ pad2 d @ ''T'' @ pad2 h @ '':'' @ pad2 mi
            @ '':'' @ pad2 s @ rest)
         \<longleftrightarrow>
         (9999 < y \<or> 9999 = y \<and> (12 < mo \<or> 12 = mo \<and> (31 < d \<or> 31 = d \<and>
           (23 < h \<or> 23 = h \<and> (59 < mi \<or> 59 = mi \<and> (59 < s \<or> 59 = s \<and>
              str_lt (''.'' @ pad6 999999) rest))))))"
proof -
  have mx: "(9999::nat) < 10000" "(12::nat) < 100" "(31::nat) < 100" "(23::nat) < 100"
    "(59::nat) < 100"
    by simp_all
  show ?thesis
    unfolding iso_max_form
    apply (simp only: str_lt_pad4 [OF mx(1) assms(1)])
    apply (simp only: append_Cons append_Nil str_lt_sep)
    apply (simp only: str_lt_pad2 [OF mx(2) assms(2)])
    apply (simp only: append_Cons append_Nil str_lt_sep)
    apply (simp only: str_lt_pad2 [OF mx(3) assms(3)])
    apply (simp only: append_Cons append_Nil str_lt_sep)
    apply (simp only: str_lt_pad2 [OF mx(4) assms(4)])
    apply (simp only: append_Cons append_Nil str_lt_sep)
    apply (simp only: str_lt_pad2 [OF mx(5) assms(5)])
    apply (simp only: append_Cons append_Nil str_lt_sep)
    apply (simp only: str_lt_pad2 [OF mx(5) assms(6)])
    done
qed

text \<open>No valid datetime has an ISO text above that of \<^verbatim>\<open>datetime.max\<close>.\<close>

lemma max_not_before:
  assumes "valid_datetime t"
  shows "\<not> str_lt datetime_max_iso (isoformat t)"
proof -
  have b: "year t < 10000" "month t < 100" "day t < 100" "hour t < 100" "minute t < 100"
    "second t < 100"
    using assms days_in_month_le [of "year t" "month t"]
    by (auto simp: valid_datetime_def valid_date_def)
  have u: "microsecond t < 1000000"
    using assms by (simp add: valid_datetime_def)
  have tail: "\<not> str_lt (''.'' @ pad6 999999)
      (if microsecond t = 0 then [] else ''.'' @ pad6 (microsecond t))"
  proof (cases "microsecond t = 0")
    case True
    then show ?thesis by simp
  next
    case False
    have "(999999::nat) < 1000000" by simp
    from str_lt_pad6 [OF this u, of "[]" "[]"]
    have "str_lt (pad6 999999) (pad6 (microsecond t)) \<longleftrightarrow> 999999 < microsecond t"
      by simp
    with u False show ?thesis by simp
  qed
  have "str_lt datetime_max_iso (isoformat t) \<longleftrightarrow>
      (9999 < year t \<or> 9999 = year t \<and> (12 < month t \<or> 12 = month t \<and>
        (31 < day t \<or> 31 = day t \<and> (23 < hour t \<or> 23 = hour t \<and>
          (59 < minute t \<or> 59 = minute t \<and> (59 < second t \<or> 59 = second t \<and>
            str_lt (''.'' @ pad6 999999)
              (if microsecond t = 0 then [] else ''.'' @ pad6 (microsecond t))))))))"
    unfolding isoformat_def by (rule str_lt_max_fields [OF b])
  with tail show ?thesis
    using assms days_in_month_le [of "year t" "month t"]
    by (auto simp: valid_datetime_def valid_date_def)
qed

lemma is_old_outdated:
  assumes "\<not> str_lt datetime_max_iso t"
    and "case snd g ''LastUpdated'' of
           None \<Rightarrow> True | Some (PStr s) \<Rightarrow> True | Some _ \<Rightarrow> False"
  shows "is_old t g = Inr (outdated t g)"
  using assms by (auto simp: is_old_def outdated_def split: option.splits pyval.splits)

lemma old_grants_filter:
  assumes "\<not> str_lt datetime_max_iso t"
  shows "strings_only gs \<Longrightarrow> old_grants t gs = Inr (filter (outdated t) gs)"
proof (induction gs)
  case Nil
  then show ?case by simp
next
  case (Cons g gs)
  then show ?case using assms by (simp add: strings_only_def is_old_outdated)
qed

lemma delete_all_filter:
  "delete_all old tbl = filter (\<lambda>r. fst r \<notin> fst ` set old) tbl"
proof (induction old arbitrary: tbl)
  case Nil
  then show ?case by simp
next
  case (Cons g gs)
  show ?case
    by (simp add: Cons.IH delete_entity_def AList.delete_eq) (auto intro: filter_cong)
qed

lemma key_in_filter:
  assumes "distinct (map fst tbl)" and "r \<in> set tbl"
  shows "fst r \<in> fst ` set (filter P tbl) \<longleftrightarrow> P r"
proof
  assume "fst r \<in> fst ` set (filter P tbl)"
  then obtain r' where r': "r' \<in> set tbl" "P r'" "fst r' = fst r" by auto
  with assms have "r' = r" by (metis eq_key_imp_eq_value prod.collapse)
  with r' show "P r" by simp
next
  assume "P r"
  with assms show "fst r \<in> fst ` set (filter P tbl)" by auto
qed

lemma cleanup_filter:
  assumes "distinct (map fst tbl)" "strings_only (query_grants tbl)"
    "\<not> str_lt datetime_max_iso t"
  shows "(case old_grants t (query_grants tbl) of Inl e \<Rightarrow> Inl e
          | Inr old \<Rightarrow> Inr (delete_all old tbl))
       = Inr (filter (\<lambda>r. \<not> (fst (fst r) = ''Grant'' \<and> outdated t r)) tbl)"
proof -
  have "old_grants t (query_grants tbl) = Inr (filter (outdated t) (query_grants tbl))"
    using assms by (simp add: old_grants_filter)
  moreover have "filter (\<lambda>r. fst r \<notin> fst ` set (filter (outdated t) (query_grants tbl))) tbl
     = filter (\<lambda>r. \<not> (fst (fst r) = ''Grant'' \<and> outdated t r)) tbl"
  proof (rule filter_cong [OF refl])
    fix r assume r: "r \<in> set tbl"
    have "filter (outdated t) (query_grants tbl)
        = filter (\<lambda>r. fst (fst r) = ''Grant'' \<and> outdated t r) tbl"
      by (simp add: query_grants_def conj_commute)
    with key_in_filter [OF assms(1) r]
    show "(fst r \<notin> fst ` set (filter (outdated t) (query_grants tbl)))
        = (\<not> (fst (fst r) = ''Grant'' \<and> outdated t r))"
      by simp
  qed
  ultimately show ?thesis by (simp add: delete_all_filter)
qed

text \<open>
  C9: on a table whose rows have distinct keys and whose \<^verbatim>\<open>LastUpdated\<close> values are
  strings, the cleanup removes exactly the rows of partition Grant whose
  \<^verbatim>\<open>LastUpdated\<close> is present and compares below the ISO text of the threshold; every
  other row stays, unchanged and in place. In particular a row without
  \<^verbatim>\<open>LastUpdated\<close> is never removed.
\<close>

theorem cleanup_deletes_exactly_outdated:
  assumes "distinct (map fst tbl)"
    and "strings_only (query_grants tbl)"
    and "valid_datetime threshold"
  shows "cleanup_main threshold tbl
           = Inr (filter (\<lambda>r. \<not> (fst (fst r) = ''Grant''
                                  \<and> outdated (isoformat threshold) r)) tbl)
         \<and> (\<forall>r \<in> set tbl. snd r ''LastUpdated'' = None \<longrightarrow>
               r \<in> set (filter (\<lambda>r. \<not> (fst (fst r) = ''Grant''
                                  \<and> outdated (isoformat threshold) r)) tbl))"
proof
  show "cleanup_main threshold tbl
           = Inr (filter (\<lambda>r. \<not> (fst (fst r) = ''Grant''
                                  \<and> outdated (isoformat threshold) r)) tbl)"
    unfolding cleanup_main_def Let_def
    using assms(1,2) max_not_before [OF assms(3)] by (rule cleanup_filter)
next
  show "\<forall>r \<in> set tbl. snd r ''LastUpdated'' = None \<longrightarrow>
               r \<in> set (filter (\<lambda>r. \<not> (fst (fst r) = ''Grant''
                                  \<and> outdated (isoformat threshold) r)) tbl)"
    by (simp add: outdated_def)
qed

theorem cleanup_deletes_exactly_outdated_witness:
  "cleanup_main
     \<lparr> year = 2026, month = 8, day = 5, hour = 12, minute = 0, second = 0,
        microsecond = 0 \<rparr>
     [((''Grant'', ''100''), [''LastUpdated'' \<mapsto> PStr ''2020-01-01T00:00:00'']),
      ((''Grant'', ''200''), [''LastUpdated'' \<mapsto> PStr ''2026-10-01T09:30:00.000001'']),
      ((''Grant'', ''300''), [''Title'' \<mapsto> PStr ''Undated''])]
   = Inr [((''Grant'', ''200''), [''LastUpdated'' \<mapsto> PStr ''2026-10-01T09:30:00.000001'']),
          ((''Grant'', ''300''), [''Title'' \<mapsto> PStr ''Undated''])]"
proof -
  have v: "valid_datetime \<lparr> year = 2026, month = 8, day = 5, hour = 12, minute = 0,
        second = 0, microsecond = 0 \<rparr>"
    by (simp add: valid_datetime_def valid_date_def days_in_month_def)
  have d: "distinct (map fst
     [((''Grant'', ''100''), [''LastUpdated'' \<mapsto> PStr ''2020-01-01T00:00:00'']),
      ((''Grant'', ''200''), [''LastUpdated'' \<mapsto> PStr ''2026-10-01T09:30:00.000001'']),
      ((''Grant'', ''300''), [''Title'' \<mapsto> PStr ''Undated''])])"
    by simp
  have s: "strings_only (query_grants
     [((''Grant'', ''100''), [''LastUpdated'' \<mapsto> PStr ''2020-01-01T00:00:00'']),
      ((''Grant'', ''200''), [''LastUpdated'' \<mapsto> PStr ''2026-10-01T09:30:00.000001'']),
      ((''Grant'', ''300''), [''Title'' \<mapsto> PStr ''Undated''])])"
    by (simp add: strings_only_def query_grants_def)
  have i: "isoformat \<lparr> year = 2026, month = 8, day = 5, hour = 12, minute = 0,
        second = 0, microsecond = 0 \<rparr> = ''2026-08-05T12:00:00''"
    by (simp add: isoformat_def pad4_def pad2_def digit_char_def)
  from cleanup_deletes_exactly_outdated [OF d s v] show ?thesis
    by (simp add: i outdated_def)
qed

section \<open>Properties of the date normalization\<close>

lemma try_formats_None:
  "try_formats strptime s fmts = None \<longleftrightarrow> (\<forall>fmt \<in> set fmts. strptime s fmt = None)"
  by (induction fmts) (auto split: option.splits)

lemma py_int_slice:
  assumes "\<forall>c \<in> set s. is_digit c" and "t = take k (drop j s)" and "t \<noteq> []"
    and "k \<le> 4300"
  shows "py_int t = Some (int (digits_nat t))"
proof -
  have "set t \<subseteq> set s"
    unfolding assms(2) using set_take_subset set_drop_subset by (rule subset_trans)
  with assms(1) have d: "\<forall>c \<in> set t. is_digit c" by blast
  have "length t \<le> 4300" unfolding assms(2) using assms(4) by simp
  from py_int_digits [OF assms(3) d this] show ?thesis .
qed

lemma parse_grants_date_digits:
  assumes "length s = 8" and "\<forall>c \<in> set s. is_digit c"
  shows "parse_grants_date (JStr s) =
           (if valid_date (digits_nat (take 4 (drop 4 s))) (digits_nat (take 2 s))
                 (digits_nat (take 2 (drop 2 s)))
            then Some (Date (digits_nat (take 4 (drop 4 s))) (digits_nat (take 2 s))
                         (digits_nat (take 2 (drop 2 s))))
            else None)"
proof -
  from assms(1) have ne: "s \<noteq> []" "take 2 (drop 0 s) \<noteq> []" "take 2 (drop 2 s) \<noteq> []"
    "take 4 (drop 4 s) \<noteq> []"
    by auto
  have m: "py_int (take 2 s) = Some (int (digits_nat (take 2 s)))"
    using py_int_slice [OF assms(2), of "take 2 s" 2 0] ne(2) by simp
  have d: "py_int (take 2 (drop 2 s)) = Some (int (digits_nat (take 2 (drop 2 s))))"
    using py_int_slice [OF assms(2), of "take 2 (drop 2 s)" 2 2] ne(3) by simp
  have y: "py_int (take 4 (drop 4 s)) = Some (int (digits_nat (take 4 (drop 4 s))))"
    using py_int_slice [OF assms(2), of "take 4 (drop 4 s)" 4 4] ne(4) by simp
  have v: "valid_date yy mm dd \<Longrightarrow> 1 \<le> mm \<and> mm \<le> 12 \<and> 1 \<le> dd \<and> dd \<le> 31" for yy mm dd
    using days_in_month_le [of yy mm] by (simp add: valid_date_def)
  have "parse_grants_date (JStr s) =
      (if 1 \<le> int (digits_nat (take 2 s)) \<and> int (digits_nat (take 2 s)) \<le> 12
          \<and> 1 \<le> int (digits_nat (take 2 (drop 2 s)))
          \<and> int (digits_nat (take 2 (drop 2 s))) \<le> 31
       then make_date (int (digits_nat (take 4 (drop 4 s)))) (int (digits_nat (take 2 s)))
              (int (digits_nat (take 2 (drop 2 s))))
       else None)"
    unfolding parse_grants_date_def jval.case m d y using assms(1) ne(1) by simp
  also have "\<dots> =
      (if valid_date (digits_nat (take 4 (drop 4 s))) (digits_nat (take 2 s))
            (digits_nat (take 2 (drop 2 s)))
       then Some (Date (digits_nat (take 4 (drop 4 s))) (digits_nat (take 2 s))
                    (digits_nat (take 2 (drop 2 s))))
       else None)"
    using v [of "digits_nat (take 4 (drop 4 s))" "digits_nat (take 2 s)"
        "digits_nat (take 2 (drop 2 s))"]
    by (auto simp: make_date_def)
  finally show ?thesis .
qed

text \<open>
  C8, as stated, fails on \<^verbatim>\<open>parse_grants_date\<close>: a text in none of its formats is
  replaced by \<^verbatim>\<open>None\<close>, not kept.
\<close>

theorem parse_grants_date_drops_text:
  "parse_grants_date (JStr ''Apr 13, 2023'') = None"
  by (simp add: parse_grants_date_def)

text \<open>
  C8, amended. \<^verbatim>\<open>format_date\<close> maps a non-empty text that one of its nine formats
  parses to the ISO text of the datetime parsed by the first such format, and returns
  every other non-empty text unchanged. \<^verbatim>\<open>parse_grants_date\<close> maps a text of eight
  digits MMDDYYYY to the date it denotes when that is a date of the calendar and to
  \<^verbatim>\<open>None\<close> when it is not; it gives \<^verbatim>\<open>None\<close> for every text of another length
  and for every value that is not a text. Whenever it returns a date, its argument is
  a text of eight characters whose three fields \<^verbatim>\<open>int\<close> reads as the month, the day
  and the year of that date.
\<close>

theorem date_normalization:
  "(s \<noteq> [] \<and> (\<forall>fmt \<in> set date_formats. strptime s fmt = None)
      \<longrightarrow> format_date strptime (JStr s) = Inr (Some s))
   \<and> (s \<noteq> [] \<and> try_formats strptime s date_formats = Some t
      \<longrightarrow> format_date strptime (JStr s) = Inr (Some (isoformat t)))
   \<and> (length s = 8 \<and> (\<forall>c \<in> set s. is_digit c) \<longrightarrow>
        parse_grants_date (JStr s) =
          (if valid_date (digits_nat (take 4 (drop 4 s))) (digits_nat (take 2 s))
                (digits_nat (take 2 (drop 2 s)))
           then Some (Date (digits_nat (take 4 (drop 4 s))) (digits_nat (take 2 s))
                        (digits_nat (take 2 (drop 2 s))))
           else None))
   \<and> (length s \<noteq> 8 \<longrightarrow> parse_grants_date (JStr s) = None)
   \<and> ((\<forall>str. v \<noteq> JStr str) \<longrightarrow> parse_grants_date v = None)
   \<and> (parse_grants_date v = Some (Date y m d) \<longrightarrow>
        (\<exists>str. v = JStr str \<and> length str = 8 \<and> valid_date y m d
           \<and> py_int (take 2 str) = Some (int m)
           \<and> py_int (take 2 (drop 2 str)) = Some (int d)
           \<and> py_int (take 4 (drop 4 str)) = Some (int y)))"
proof (intro conjI impI)
  assume "s \<noteq> [] \<and> (\<forall>fmt \<in> set date_formats. strptime s fmt = None)"
  then show "format_date strptime (JStr s) = Inr (Some s)"
    by (simp add: format_date_def try_formats_None [THEN iffD2])
next
  assume "s \<noteq> [] \<and> try_formats strptime s date_formats = Some t"
  then show "format_date strptime (JStr s) = Inr (Some (isoformat t))"
    by (simp add: format_date_def)
next
  assume "length s = 8 \<and> (\<forall>c \<in> set s. is_digit c)"
  then show "parse_grants_date (JStr s) =
          (if valid_date (digits_nat (take 4 (drop 4 s))) (digits_nat (take 2 s))
                (digits_nat (take 2 (drop 2 s)))
           then Some (Date (digits_nat (take 4 (drop 4 s))) (digits_nat (take 2 s))
                        (digits_nat (take 2 (drop 2 s))))
           else None)"
    by (intro parse_grants_date_digits) simp_all
next
  assume "length s \<noteq> 8"
  then show "parse_grants_date (JStr s) = None"
    by (simp add: parse_grants_date_def)
next
  assume "\<forall>str. v \<noteq> JStr str"
  then show "parse_grants_date v = None"
    by (cases v) (simp_all add: parse_grants_date_def)
next
  assume p: "parse_grants_date v = Some (Date y m d)"
  then obtain str where v: "v = JStr str"
    by (cases v) (simp_all add: parse_grants_date_def)
  from p have "length str = 8"
    by (simp add: v parse_grants_date_def split: if_splits)
  moreover from p have "valid_date y m d"
    by (auto simp: v parse_grants_date_def make_date_def split: if_splits option.splits)
  moreover from p have "py_int (take 2 str) = Some (int m)"
    by (auto simp: v parse_grants_date_def make_date_def split: if_splits option.splits)
  moreover from p have "py_int (take 2 (drop 2 str)) = Some (int d)"
    by (auto simp: v parse_grants_date_def make_date_def split: if_splits option.splits)
  moreover from p have "py_int (take 4 (drop 4 str)) = Some (int y)"
    by (auto simp: v parse_grants_date_def make_date_def split: if_splits option.splits)
  ultimately show "\<exists>str. v = JStr str \<and> length str = 8 \<and> valid_date y m d
           \<and> py_int (take 2 str) = Some (int m)
           \<and> py_int (take 2 (drop 2 str)) = Some (int d)
           \<and> py_int (take 4 (drop 4 str)) = Some (int y)"
    using v by blast
qed

theorem date_normalization_witness:
  "format_date strptime_examples (JStr ''Apr 13, 2023'') = Inr (Some ''Apr 13, 2023'')
   \<and> format_date strptime_examples (JStr ''04/13/2023'')
       = Inr (Some ''2023-04-13T00:00:00'')
   \<and> parse_grants_date (JStr ''04132023'') = Some (Date 2023 4 13)
   \<and> parse_grants_date (JStr ''02302023'') = None
   \<and> parse_grants_date (JStr ''2023-04-13'') = None
   \<and> parse_grants_date JNull = None
   \<and> parse_grants_date (JInt 4132023) = None
   \<and> valid_date 2023 4 13"
proof -
  have a: "''Apr 13, 2023'' \<noteq> []
      \<and> (\<forall>fmt \<in> set date_formats. strptime_examples ''Apr 13, 2023'' fmt = None)"
    by (simp add: strptime_examples_def)
  have b: "''04/13/2023'' \<noteq> []
      \<and> try_formats strptime_examples ''04/13/2023'' date_formats
         = Some \<lparr> year = 2023, month = 4, day = 13, hour = 0, minute = 0, second = 0,
                   microsecond = 0 \<rparr>"
    by (simp add: strptime_examples_def date_formats_def)
  have i: "isoformat \<lparr> year = 2023, month = 4, day = 13, hour = 0, minute = 0,
        second = 0, microsecond = 0 \<rparr> = ''2023-04-13T00:00:00''"
    by (simp add: isoformat_def pad4_def pad2_def digit_char_def)
  have c: "length ''2023-04-13'' \<noteq> 8" by simp
  have g: "length ''04132023'' = 8 \<and> (\<forall>c \<in> set ''04132023''. is_digit c)"
    "length ''02302023'' = 8 \<and> (\<forall>c \<in> set ''02302023''. is_digit c)"
    by (simp_all add: is_digit_def)
  have n: "digits_nat ''04'' = 4" "digits_nat ''13'' = 13" "digits_nat ''2023'' = 2023"
    "digits_nat ''02'' = 2" "digits_nat ''30'' = 30"
    by (simp_all add: digits_nat_def digit_val_def)
  have k: "valid_date 2023 4 13" "\<not> valid_date 2023 2 30"
    by (simp_all add: valid_date_def days_in_month_def is_leap_def)
  have 1: "format_date strptime_examples (JStr ''Apr 13, 2023'') = Inr (Some ''Apr 13, 2023'')"
    using date_normalization [of "''Apr 13, 2023''" strptime_examples] a by blast
  have 2: "format_date strptime_examples (JStr ''04/13/2023'')
       = Inr (Some ''2023-04-13T00:00:00'')"
    using date_normalization [of "''04/13/2023''" strptime_examples
        "\<lparr> year = 2023, month = 4, day = 13, hour = 0, minute = 0, second = 0,
           microsecond = 0 \<rparr>"] b i
    by simp
  have "parse_grants_date (JStr ''04132023'') =
          (if valid_date (digits_nat (take 4 (drop 4 ''04132023'')))
                (digits_nat (take 2 ''04132023'')) (digits_nat (take 2 (drop 2 ''04132023'')))
           then Some (Date (digits_nat (take 4 (drop 4 ''04132023'')))
                        (digits_nat (take 2 ''04132023''))
                        (digits_nat (take 2 (drop 2 ''04132023''))))
           else None)"
    using date_normalization [of "''04132023''"] g(1) by blast
  hence 3: "parse_grants_date (JStr ''04132023'') = Some (Date 2023 4 13)"
    by (simp add: n k)
  have "parse_grants_date (JStr ''02302023'') =
          (if valid_date (digits_nat (take 4 (drop 4 ''02302023'')))
                (digits_nat (take 2 ''02302023'')) (digits_nat (take 2 (drop 2 ''02302023'')))
           then Some (Date (digits_nat (take 4 (drop 4 ''02302023'')))
                        (digits_nat (take 2 ''02302023''))
                        (digits_nat (take 2 (drop 2 ''02302023''))))
           else None)"
    using date_normalization [of "''02302023''"] g(2) by blast
  hence 4: "parse_grants_date (JStr ''02302023'') = None"
    by (simp add: n k)
  have 5: "parse_grants_date (JStr ''2023-04-13'') = None"
    using date_normalization [of "''2023-04-13''"] c by blast
  have 6: "parse_grants_date JNull = None"
    using date_normalization [where v = JNull] by simp
  have 7: "parse_grants_date (JInt 4132023) = None"
    using date_normalization [where v = "JInt 4132023"] by simp
  have 8: "valid_date 2023 4 13"
    using date_normalization [where v = "JStr ''04132023''" and y = 2023 and m = 4
        and d = 13] 3
    by blast
  from 1 2 3 4 5 6 7 8 show ?thesis by (intro conjI)
qed

text \<open>
  The fields are read by \<^verbatim>\<open>int\<close>: a leading space is accepted, a leading separator
  0x1C is not.
\<close>

lemma parse_grants_date_separator:
  "parse_grants_date (JStr (CHR 0x1C # ''4132023'')) = None
   \<and> parse_grants_date (JStr '' 4132023'') = Some (Date 2023 4 13)"
  by (simp add: parse_grants_date_def py_int_def int_isspace_def max_str_digits_def
      int_unsigned_def is_digit_def digit_val_def make_date_def valid_date_def
      days_in_month_def)


section \<open>Properties of the transformer\<close>

text \<open>
  C7 fails on a payload that has an id and a title and whose description is
  \<^verbatim>\<open>null\<close>: both its id and its title are there, and yet it yields no record.
  \<^verbatim>\<open>opp.get('description', '')\<close> is \<^verbatim>\<open>None\<close> there, the slice \<^verbatim>\<open>[:500]\<close> raises
  TypeError and the whole call returns nothing, also for the other payloads of the
  batch.
\<close>

theorem null_description_raises:
  "jtruthy ([''id'' \<mapsto> JStr ''351423'', ''title'' \<mapsto> JStr ''Education grant'',
             ''description'' \<mapsto> JNull] ''id'')
   \<and> jtruthy ([''id'' \<mapsto> JStr ''351423'', ''title'' \<mapsto> JStr ''Education grant'',
               ''description'' \<mapsto> JNull] ''title'')
   \<and> transform_opportunities dumps_example
       [[''id'' \<mapsto> JStr ''351423'', ''title'' \<mapsto> JStr ''Education grant'',
         ''description'' \<mapsto> JNull]]
     = Inl TypeError
   \<and> transform_opportunities dumps_example
       [[''id'' \<mapsto> JStr ''351424'', ''title'' \<mapsto> JStr ''Health grant'',
         ''description'' \<mapsto> JStr ''Community health''],
        [''id'' \<mapsto> JStr ''351423'', ''title'' \<mapsto> JStr ''Education grant'',
         ''description'' \<mapsto> JNull]]
     = Inl TypeError"
  by (simp add: missing_critical_def transformed_opp_def short_description_def)

section \<open>Properties of the merge into the table\<close>

lemma map_of_upsert:
  assumes "upsert_entity entity tbl = Inr tbl'" and "entity_keys entity = Some key"
  shows "map_of tbl' = (map_of tbl)(key \<mapsto> stored_props tbl key ++ entity_props entity)"
proof (cases "map_of tbl key")
  case None
  with assms have t: "tbl' = tbl @ [(key, entity_props entity)]"
    by (simp add: upsert_entity_def split: if_splits)
  show ?thesis
  proof
    fix k
    show "map_of tbl' k
        = ((map_of tbl)(key \<mapsto> stored_props tbl key ++ entity_props entity)) k"
      using None by (cases "map_of tbl k") (auto simp: t stored_props_def map_add_def)
  qed
next
  case (Some stored)
  with assms have t: "tbl' = AList.update key (stored ++ entity_props entity) tbl"
    by (simp add: upsert_entity_def split: if_splits)
  show ?thesis
    using Some by (simp add: t update_conv' stored_props_def)
qed

lemma stored_after_upsert:
  assumes "upsert_entity entity tbl = Inr tbl'" and "entity_keys entity = Some key"
  shows "stored_props tbl' key = stored_props tbl key ++ entity_props entity"
    and "key' \<noteq> key \<Longrightarrow> map_of tbl' key' = map_of tbl key'"
  using map_of_upsert [OF assms] by (simp_all add: stored_props_def)

lemma upsert_succeeds:
  "entity_keys entity = Some key \<Longrightarrow> encodable entity \<Longrightarrow>
     \<exists>tbl'. upsert_entity entity tbl = Inr tbl'"
  by (simp add: upsert_entity_def split: option.splits)

lemma encodable_strings:
  "(\<And>k v. entity k = Some v \<Longrightarrow> \<exists>s. v = PStr s) \<Longrightarrow> encodable entity"
  by (fastforce simp: encodable_def ran_def int32_def)

lemma details_entity_encodable: "encodable (details_entity oid now gd)"
  by (rule encodable_strings) (auto simp: details_entity_def Let_def split: if_splits)

lemma details_entity_keys:
  "entity_keys (details_entity oid now gd) = Some (''Grant'', oid)"
  by (simp add: entity_keys_def details_entity_def Let_def)

lemma details_entity_named:
  "k \<in> details_columns \<Longrightarrow>
     entity_props (details_entity oid now gd) k = details_entity oid now gd k
     \<and> details_entity oid now gd k \<noteq> None"
  by (auto simp: details_columns_def entity_props_def details_entity_def Let_def)

lemma details_entity_unnamed:
  "k \<notin> details_columns \<Longrightarrow> entity_props (details_entity oid now gd) k = None"
  by (simp add: details_columns_def entity_props_def details_entity_def Let_def)

lemma details_main_upsert:
  assumes "details_response primary legacy = Some gd" and "gd \<noteq> NestedBad"
  shows "upsert_entity (details_entity (py_strip message) now gd) tbl
           = Inr (get_grant_details_main message primary legacy now tbl)"
proof -
  from upsert_succeeds [OF details_entity_keys details_entity_encodable]
  obtain tbl' where "upsert_entity (details_entity (py_strip message) now gd) tbl = Inr tbl'"
    by blast
  with assms show ?thesis
    by (cases gd) (simp_all add: get_grant_details_main_def Let_def)
qed

text \<open>
  C1, as stated, fails: the record fetched for a stored id carries only a title, and
  the stored description and award ceiling are replaced by the empty string.
\<close>

theorem details_upsert_clears_description:
  "stored_props
     [((''Grant'', ''351423''),
       [''Title'' \<mapsto> PStr ''Old title'', ''Description'' \<mapsto> PStr ''Full description'',
        ''AwardCeiling'' \<mapsto> PStr ''500000''])]
     (''Grant'', ''351423'') ''Description'' = Some (PStr ''Full description'')
   \<and> stored_props
     [((''Grant'', ''351423''),
       [''Title'' \<mapsto> PStr ''Old title'', ''Description'' \<mapsto> PStr ''Full description'',
        ''AwardCeiling'' \<mapsto> PStr ''500000''])]
     (''Grant'', ''351423'') ''AwardCeiling'' = Some (PStr ''500000'')
   \<and> stored_props
     (get_grant_details_main ''351423''
        (Response 200 (Some (Nested [''title'' \<mapsto> JStr ''New title''])))
        Raised ''2026-11-03T10:00:00''
        [((''Grant'', ''351423''),
          [''Title'' \<mapsto> PStr ''Old title'', ''Description'' \<mapsto> PStr ''Full description'',
           ''AwardCeiling'' \<mapsto> PStr ''500000''])])
     (''Grant'', ''351423'') ''Description'' = Some (PStr [])
   \<and> stored_props
     (get_grant_details_main ''351423''
        (Response 200 (Some (Nested [''title'' \<mapsto> JStr ''New title''])))
        Raised ''2026-11-03T10:00:00''
        [((''Grant'', ''351423''),
          [''Title'' \<mapsto> PStr ''Old title'', ''Description'' \<mapsto> PStr ''Full description'',
           ''AwardCeiling'' \<mapsto> PStr ''500000''])])
     (''Grant'', ''351423'') ''AwardCeiling'' = Some (PStr [])"
proof -
  have r: "details_response
      (Response 200 (Some (Nested [''title'' \<mapsto> JStr ''New title''])))
      Raised = Some (Nested [''title'' \<mapsto> JStr ''New title''])"
    by (simp add: details_response_def)
  have s: "py_strip ''351423'' = ''351423''"
    by (simp add: py_strip_def py_isspace_def)
  have n: "Nested [''title'' \<mapsto> JStr ''New title''] \<noteq> NestedBad" by simp
  note u = details_main_upsert [OF r n, of "''351423''", unfolded s]
  note a = stored_after_upsert(1) [OF u details_entity_keys]
  have d: "entity_props (details_entity ''351423'' ''2026-11-03T10:00:00''
      (Nested [''title'' \<mapsto> JStr ''New title''])) ''Description'' = Some (PStr [])"
    by (simp add: entity_props_def details_entity_def Let_def details_field_def get_or_def
        clean_text_details_def)
  have c: "entity_props (details_entity ''351423'' ''2026-11-03T10:00:00''
      (Nested [''title'' \<mapsto> JStr ''New title''])) ''AwardCeiling'' = Some (PStr [])"
    by (simp add: entity_props_def details_entity_def Let_def details_field_def get_or_def
        clean_text_details_def)
  show ?thesis
    by (simp add: a d c) (simp add: stored_props_def)
qed

text \<open>
  C1, amended. The write of GetGrantDetails is a merge by property: every property
  that its entity names (title, agency name, description, close date, post date,
  agency code, award ceiling, award floor, category, URL, last update) replaces the
  stored one, also when the fetched record had no value for it and the entity carries
  the empty string; every stored property that the entity does not name, and every
  other row, is left as it was. The collector does not write a record whose id it has
  already seen.
\<close>

theorem details_upsert_merges:
  "(details_response primary legacy = Some grant_data \<and> grant_data \<noteq> NestedBad \<longrightarrow>
      (\<forall>k \<in> details_columns.
          stored_props (get_grant_details_main message primary legacy now tbl)
              (''Grant'', py_strip message) k
            = details_entity (py_strip message) now grant_data k
          \<and> details_entity (py_strip message) now grant_data k \<noteq> None)
      \<and> (\<forall>k. k \<notin> details_columns \<longrightarrow>
          stored_props (get_grant_details_main message primary legacy now tbl)
              (''Grant'', py_strip message) k
            = stored_props tbl (''Grant'', py_strip message) k)
      \<and> (\<forall>key. key \<noteq> (''Grant'', py_strip message) \<longrightarrow>
          map_of (get_grant_details_main message primary legacy now tbl) key
            = map_of tbl key))
   \<and> (opportunity ''id'' = Some opportunity_id \<and> opportunity_id \<in> processed_ids st \<longrightarrow>
        process_opportunity now opportunity st = st)"
proof (intro conjI impI)
  assume h: "details_response primary legacy = Some grant_data \<and> grant_data \<noteq> NestedBad"
  hence u: "upsert_entity (details_entity (py_strip message) now grant_data) tbl
           = Inr (get_grant_details_main message primary legacy now tbl)"
    by (simp add: details_main_upsert)
  note a = stored_after_upsert [OF u details_entity_keys]
  show "\<forall>k \<in> details_columns.
          stored_props (get_grant_details_main message primary legacy now tbl)
              (''Grant'', py_strip message) k
            = details_entity (py_strip message) now grant_data k
          \<and> details_entity (py_strip message) now grant_data k \<noteq> None"
  proof
    fix k assume k: "k \<in> details_columns"
    from details_entity_named [OF k, of "py_strip message" now grant_data]
    show "stored_props (get_grant_details_main message primary legacy now tbl)
              (''Grant'', py_strip message) k
            = details_entity (py_strip message) now grant_data k
          \<and> details_entity (py_strip message) now grant_data k \<noteq> None"
      by (auto simp: a(1) map_add_def split: option.splits)
  qed
  show "\<forall>k. k \<notin> details_columns \<longrightarrow>
          stored_props (get_grant_details_main message primary legacy now tbl)
              (''Grant'', py_strip message) k
            = stored_props tbl (''Grant'', py_strip message) k"
    by (simp add: a(1) map_add_def details_entity_unnamed)
  show "\<forall>key. key \<noteq> (''Grant'', py_strip message) \<longrightarrow>
          map_of (get_grant_details_main message primary legacy now tbl) key
            = map_of tbl key"
    using a(2) by simp
next
  assume "opportunity ''id'' = Some opportunity_id \<and> opportunity_id \<in> processed_ids st"
  then show "process_opportunity now opportunity st = st"
    by (simp add: process_opportunity_def)
qed

theorem details_upsert_merges_witness:
  "stored_props
     (get_grant_details_main ''351423''
        (Response 200 (Some (Nested [''title'' \<mapsto> JStr ''New title''])))
        Raised ''2026-11-03T10:00:00''
        [((''Grant'', ''351423''),
          [''Title'' \<mapsto> PStr ''Old title'', ''Number'' \<mapsto> PStr ''ED-GRANTS-1''])])
     (''Grant'', ''351423'') ''Title'' = Some (PStr ''New title'')
   \<and> stored_props
     (get_grant_details_main ''351423''
        (Response 200 (Some (Nested [''title'' \<mapsto> JStr ''New title''])))
        Raised ''2026-11-03T10:00:00''
        [((''Grant'', ''351423''),
          [''Title'' \<mapsto> PStr ''Old title'', ''Number'' \<mapsto> PStr ''ED-GRANTS-1''])])
     (''Grant'', ''351423'') ''Number'' = Some (PStr ''ED-GRANTS-1'')"
proof -
  have r: "details_response
      (Response 200 (Some (Nested [''title'' \<mapsto> JStr ''New title''])))
      Raised = Some (Nested [''title'' \<mapsto> JStr ''New title''])
      \<and> Nested [''title'' \<mapsto> JStr ''New title''] \<noteq> NestedBad"
    by (simp add: details_response_def)
  have s: "py_strip ''351423'' = ''351423''"
    by (simp add: py_strip_def py_isspace_def)
  have t: "''Title'' \<in> details_columns" and n: "''Number'' \<notin> details_columns"
    by (simp_all add: details_columns_def)
  have e: "details_entity ''351423'' ''2026-11-03T10:00:00''
      (Nested [''title'' \<mapsto> JStr ''New title'']) ''Title'' = Some (PStr ''New title'')"
    by (simp add: details_entity_def Let_def details_field_def get_or_def
        clean_text_details_def nul_def)
  have o: "stored_props
      [((''Grant'', ''351423''),
          [''Title'' \<mapsto> PStr ''Old title'', ''Number'' \<mapsto> PStr ''ED-GRANTS-1''])]
      (''Grant'', ''351423'') ''Number'' = Some (PStr ''ED-GRANTS-1'')"
    by (simp add: stored_props_def)
  from details_upsert_merges [of "Response 200 (Some (Nested [''title'' \<mapsto> JStr ''New title'']))"
      Raised "Nested [''title'' \<mapsto> JStr ''New title'']" "''351423''" "''2026-11-03T10:00:00''"
      "[((''Grant'', ''351423''),
          [''Title'' \<mapsto> PStr ''Old title'', ''Number'' \<mapsto> PStr ''ED-GRANTS-1''])]"]
    r t n
  show ?thesis
    unfolding s by (metis e o)
qed

section \<open>Properties of the award range\<close>

lemma take_amount_kept:
  assumes "safe_float_scraper v 0 = Inr a" and "if strict then a > 0 else a \<ge> 0"
  shows "take_amount column strict v f = Inr ((fst f)(column \<mapsto> PFloat a), True)"
  using assms by (simp add: take_amount_def)

lemma web_fixes_amounts:
  assumes "web_data ''awardCeiling'' = Some cv" and "web_data ''awardFloor'' = Some fv"
    and "safe_float_scraper cv 0 = Inr c" and "safe_float_scraper fv 0 = Inr f"
    and "c > 0" and "f \<ge> 0"
  shows "\<exists>u. web_fixes entity web_data st = Inr (u, True)
            \<and> u ''AwardCeiling'' = Some (PFloat c) \<and> u ''AwardFloor'' = Some (PFloat f)"
proof -
  have c: "take_amount ''AwardCeiling'' True cv st
      = Inr ((fst st)(''AwardCeiling'' \<mapsto> PFloat c), True)"
    using assms by (simp add: take_amount_kept)
  have f: "take_amount ''AwardFloor'' False fv ((fst st)(''AwardCeiling'' \<mapsto> PFloat c), True)
      = Inr ((fst st)(''AwardCeiling'' \<mapsto> PFloat c, ''AwardFloor'' \<mapsto> PFloat f), True)"
    using assms by (simp add: take_amount_kept)
  show ?thesis
    unfolding web_fixes_def
    by (simp add: assms(1,2) c f Let_def split: option.splits)
qed

lemma ensure_floor_le_ceiling_amounts:
  assumes "u ''AwardFloor'' = Some (PFloat f)" and "u ''AwardCeiling'' = Some (PFloat c)"
    and "c > 0"
  shows "ensure_floor_le_ceiling u ''AwardFloor'' = Some (PFloat (min f c))"
    and "ensure_floor_le_ceiling u ''AwardCeiling'' = Some (PFloat (max f c))"
  using assms by (auto simp: ensure_floor_le_ceiling_def min_def max_def)

lemma ensure_floor_le_ceiling_others:
  "k \<noteq> ''AwardFloor'' \<Longrightarrow> k \<noteq> ''AwardCeiling'' \<Longrightarrow> ensure_floor_le_ceiling u k = u k"
  by (simp add: ensure_floor_le_ceiling_def split: option.splits pyval.splits)

text \<open>What the table client accepts, and what it refuses.\<close>

lemma encodable_empty: "encodable Map.empty"
  by (simp add: encodable_def)

lemma encodable_set:
  "encodable m \<Longrightarrow> (\<forall>v. x = Some v \<longrightarrow> int32 v) \<Longrightarrow> encodable (m(k := x))"
  by (auto simp: encodable_def ran_def split: if_splits)

lemma encodable_upd: "encodable m \<Longrightarrow> int32 v \<Longrightarrow> encodable (m(k \<mapsto> v))"
  by (rule encodable_set) simp_all

lemma not_encodable:
  "m k = Some (PInt n) \<Longrightarrow> \<not> (- (2 ^ 31) \<le> n \<and> n < 2 ^ 31) \<Longrightarrow> \<not> encodable m"
  by (auto simp: encodable_def ran_def int32_def)

lemma sync_encodable:
  assumes "\<forall>v. entity ''ExpectedAwards'' = Some v \<longrightarrow> int32 v"
    and "\<forall>v. entity ''ExpectedNumberofAwards'' = Some v \<longrightarrow> int32 v"
    and "encodable (fst f)"
  shows "encodable (fst (sync_expected_awards entity f))"
  using assms by (simp add: sync_expected_awards_def Let_def encodable_set)

lemma take_amount_encodable:
  "take_amount column strict v f = Inr f' \<Longrightarrow> encodable (fst f) \<Longrightarrow> encodable (fst f')"
  by (auto simp: take_amount_def encodable_upd int32_def split: sum.splits if_splits)

lemma web_fixes_encodable:
  assumes "web_fixes entity web_data f = Inr f'" and "encodable (fst f)"
    and "\<forall>v. web_data ''expectedNumOfAwards'' = Some v \<longrightarrow> int32 (safe_int_scraper v 0)"
    and "\<forall>v p. web_data ''fundingInstrument'' = Some v \<longrightarrow> to_pyval v = Some p \<longrightarrow> int32 p"
  shows "encodable (fst f')"
proof -
  obtain f1 where f1: "(case web_data ''awardCeiling'' of None \<Rightarrow> Inr f
      | Some v \<Rightarrow> take_amount ''AwardCeiling'' True v f) = Inr f1"
    using assms(1) by (auto simp: web_fixes_def split: sum.splits)
  hence e1: "encodable (fst f1)"
    using assms(2) by (auto split: option.splits dest: take_amount_encodable)
  obtain f2 where f2: "(case web_data ''awardFloor'' of None \<Rightarrow> Inr f1
      | Some v \<Rightarrow> take_amount ''AwardFloor'' False v f1) = Inr f2"
    using assms(1) by (auto simp: web_fixes_def f1 split: sum.splits)
  hence e2: "encodable (fst f2)"
    using e1 by (auto split: option.splits dest: take_amount_encodable)
  define f3 where "f3 = (case web_data ''expectedNumOfAwards'' of None \<Rightarrow> f2
      | Some v \<Rightarrow> ((fst f2)(''ExpectedNumberofAwards'' \<mapsto> safe_int_scraper v 0,
                              ''ExpectedAwards'' \<mapsto> safe_int_scraper v 0), True))"
  have e3: "encodable (fst f3)"
    using e2 assms(3) by (auto simp: f3_def encodable_upd split: option.splits)
  have "f' = (case web_data ''fundingInstrument'' of None \<Rightarrow> f3
      | Some v \<Rightarrow> if \<not> ptruthy (entity ''FundingType'')
                  then ((fst f3)(''FundingType'' := to_pyval v), True) else f3)"
    using assms(1) unfolding f3_def by (auto simp: web_fixes_def f1 f2 Let_def)
  then show ?thesis
    using e3 assms(4) by (auto simp: encodable_set split: option.splits)
qed

lemma web_fixes_awards:
  assumes "web_data ''expectedNumOfAwards'' = Some v"
    and "web_fixes entity web_data f = Inr (u, b)"
  shows "u ''ExpectedNumberofAwards'' = Some (safe_int_scraper v 0)"
  using assms
  by (auto simp: web_fixes_def Let_def split: option.splits sum.splits if_splits)

lemma update_succeeds:
  assumes "map_of tbl key = Some stored" and "entity_keys entity = Some key"
    and "encodable entity"
  shows "\<exists>tbl'. update_entity entity tbl = Inr tbl'
            \<and> stored_props tbl' key = stored ++ entity_props entity"
  using assms by (simp add: update_entity_def update_conv' stored_props_def)

lemma update_refused:
  "entity_keys entity = Some key \<Longrightarrow> \<not> encodable entity \<Longrightarrow>
     update_entity entity tbl = Inl TypeError"
  by (simp add: update_entity_def)

lemma collector_entity_encodable: "encodable (collector_entity now (JStr oid) opportunity)"
  by (rule encodable_strings) (auto simp: collector_entity_def split: if_splits)

lemma collector_entity_keys:
  "entity_keys (collector_entity now (JStr oid) opportunity) = Some (''Grant'', oid)"
  by (simp add: entity_keys_def collector_entity_def)

text \<open>
  What the collector stores for a search hit it has not seen: the row of the hit's id
  holds every property of the entity built from the hit.
\<close>

lemma process_opportunity_stores:
  assumes "opportunity ''id'' = Some (JStr oid)" and "oid \<noteq> []"
    and "JStr oid \<notin> processed_ids st"
  shows "stored_props (table (process_opportunity now opportunity st)) (''Grant'', oid)
           = stored_props (table st) (''Grant'', oid)
               ++ entity_props (collector_entity now (JStr oid) opportunity)"
proof -
  from upsert_succeeds [OF collector_entity_keys collector_entity_encodable]
  obtain tbl' where
    u: "upsert_entity (collector_entity now (JStr oid) opportunity) (table st) = Inr tbl'"
    by blast
  have "table (process_opportunity now opportunity st) = tbl'"
    using assms by (simp add: process_opportunity_def u)
  with stored_after_upsert(1) [OF u collector_entity_keys] show ?thesis by simp
qed

text \<open>
  C2, as stated, fails on the ingestion path of the collector: a record whose floor
  exceeds its positive ceiling is stored with both values as received.
\<close>

theorem collector_stores_unswapped:
  "safe_float (JStr ''15000000'') 0 = Inr 15000000
   \<and> safe_float (JStr ''5000000'') 0 = Inr 5000000
   \<and> stored_props
       (table (collector_main ''2026-11-03T10:00:00'' True
          [[[''id'' \<mapsto> JStr ''324456'', ''awardFloor'' \<mapsto> JStr ''15000000'',
             ''awardCeiling'' \<mapsto> JStr ''5000000'']]] []))
       (''Grant'', ''324456'') ''AwardFloor'' = Some (PStr ''15000000'')
   \<and> stored_props
       (table (collector_main ''2026-11-03T10:00:00'' True
          [[[''id'' \<mapsto> JStr ''324456'', ''awardFloor'' \<mapsto> JStr ''15000000'',
             ''awardCeiling'' \<mapsto> JStr ''5000000'']]] []))
       (''Grant'', ''324456'') ''AwardCeiling'' = Some (PStr ''5000000'')"
proof -
  have a: "safe_float (JStr ''15000000'') 0 = Inr 15000000"
    "safe_float (JStr ''5000000'') 0 = Inr 5000000"
    by (simp_all add: keep_numeric_def py_float_def float_unsigned_def is_digit_def
        digits_nat_def digit_val_def)
  define opp where "opp = [''id'' \<mapsto> JStr ''324456'', ''awardFloor'' \<mapsto> JStr ''15000000'',
             ''awardCeiling'' \<mapsto> JStr ''5000000'']"
  define st where "st = \<lparr> table = [], processed_ids = existing_ids True [],
      total_grants_added = 0 \<rparr>"
  have i: "opp ''id'' = Some (JStr ''324456'')" "''324456'' \<noteq> []"
    "JStr ''324456'' \<notin> processed_ids st"
    by (simp_all add: opp_def st_def existing_ids_def query_grants_def)
  have m: "collector_main ''2026-11-03T10:00:00'' True [[opp]] []
      = process_opportunity ''2026-11-03T10:00:00'' opp st"
    by (simp add: collector_main_def st_def)
  note s = process_opportunity_stores [of opp "''324456''" st "''2026-11-03T10:00:00''",
      OF i]
  have f: "entity_props (collector_entity ''2026-11-03T10:00:00'' (JStr ''324456'') opp)
      ''AwardFloor'' = Some (PStr ''15000000'')"
    by (simp add: entity_props_def collector_entity_def get_or_def clean_text_def nul_def
        opp_def)
  have c: "entity_props (collector_entity ''2026-11-03T10:00:00'' (JStr ''324456'') opp)
      ''AwardCeiling'' = Some (PStr ''5000000'')"
    by (simp add: entity_props_def collector_entity_def get_or_def clean_text_def nul_def
        opp_def)
  have sf: "stored_props (table (collector_main ''2026-11-03T10:00:00'' True [[opp]] []))
       (''Grant'', ''324456'') ''AwardFloor'' = Some (PStr ''15000000'')"
    by (simp add: m s map_add_def f)
  have sc: "stored_props (table (collector_main ''2026-11-03T10:00:00'' True [[opp]] []))
       (''Grant'', ''324456'') ''AwardCeiling'' = Some (PStr ''5000000'')"
    by (simp add: m s map_add_def c)
  from a sf sc show ?thesis unfolding opp_def by (intro conjI)
qed

text \<open>
  C2, amended. The repair pass \<^verbatim>\<open>fix_grant\<close>, run on a stored grant whose ceiling or
  floor is missing or zero, with a fetched page that gives both amounts (ceiling
  positive, floor not negative), stores the smaller of the two as AwardFloor and the
  larger as AwardCeiling, so that a floor above the ceiling is swapped with it; this
  when every integer it writes along with them (the stored expected number of awards
  under either name, the page's expected number of awards, the page's funding
  instrument) fits in 32 bits. When the page's expected number of awards does not fit,
  the table client refuses the update, nothing is stored and the pass returns False.
  The collector stores the award floor and ceiling of a search hit it has not seen as
  the text received, without comparing them.
\<close>

theorem fix_grant_orders_amounts:
  "(map_of tbl (''Grant'', grant_id) = Some entity
      \<and> (is_missing (entity ''AwardCeiling'') \<or> is_missing (entity ''AwardFloor''))
      \<and> map_of web_data ''awardCeiling'' = Some cv
      \<and> map_of web_data ''awardFloor'' = Some fv
      \<and> safe_float_scraper cv 0 = Inr c \<and> safe_float_scraper fv 0 = Inr f
      \<and> c > 0 \<and> f \<ge> 0
    \<longrightarrow>
      ((\<forall>n. entity ''ExpectedAwards'' = Some (PInt n)
             \<or> entity ''ExpectedNumberofAwards'' = Some (PInt n)
             \<or> (\<exists>v. map_of web_data ''expectedNumOfAwards'' = Some v
                    \<and> safe_int_scraper v 0 = PInt n)
             \<or> map_of web_data ''fundingInstrument'' = Some (JInt n)
           \<longrightarrow> - (2 ^ 31) \<le> n \<and> n < 2 ^ 31)
        \<longrightarrow> (\<exists>tbl'. fix_grant grant_id web_data api_data now tbl = (True, tbl')
               \<and> stored_props tbl' (''Grant'', grant_id) ''AwardFloor''
                    = Some (PFloat (min f c))
               \<and> stored_props tbl' (''Grant'', grant_id) ''AwardCeiling''
                    = Some (PFloat (max f c))))
      \<and> (\<forall>v n. map_of web_data ''expectedNumOfAwards'' = Some v
              \<and> safe_int_scraper v 0 = PInt n \<and> \<not> (- (2 ^ 31) \<le> n \<and> n < 2 ^ 31)
            \<longrightarrow> fix_grant grant_id web_data api_data now tbl = (False, tbl)))
   \<and> (opportunity ''id'' = Some (JStr oid) \<and> oid \<noteq> [] \<and> JStr oid \<notin> processed_ids st
      \<longrightarrow> stored_props (table (process_opportunity now' opportunity st)) (''Grant'', oid)
             ''AwardFloor''
            = Some (PStr (clean_text (get_or opportunity ''awardFloor'' [])))
          \<and> stored_props (table (process_opportunity now' opportunity st)) (''Grant'', oid)
               ''AwardCeiling''
              = Some (PStr (clean_text (get_or opportunity ''awardCeiling'' []))))"
proof (intro conjI impI allI)
  assume h: "map_of tbl (''Grant'', grant_id) = Some entity
      \<and> (is_missing (entity ''AwardCeiling'') \<or> is_missing (entity ''AwardFloor''))
      \<and> map_of web_data ''awardCeiling'' = Some cv
      \<and> map_of web_data ''awardFloor'' = Some fv
      \<and> safe_float_scraper cv 0 = Inr c \<and> safe_float_scraper fv 0 = Inr f
      \<and> c > 0 \<and> f \<ge> 0"
  hence ne: "web_data \<noteq> []" by auto
  from h have g: "get_entity ''Grant'' grant_id tbl = Inr entity"
    by (simp add: get_entity_def)
  define st0 where "st0 = sync_expected_awards entity (Map.empty, False)"
  from h web_fixes_amounts [of "map_of web_data" cv fv c f entity st0]
  obtain u where u: "web_fixes entity (map_of web_data) st0 = Inr (u, True)"
    "u ''AwardCeiling'' = Some (PFloat c)" "u ''AwardFloor'' = Some (PFloat f)"
    by auto
  have ff: "fetch_fixes entity web_data api_data st0 = Inr (u, True)"
    using ne u(1) by (simp add: fetch_fixes_def)
  from h have cpos: "c > 0" by simp
  note e = ensure_floor_le_ceiling_amounts [OF u(3) u(2) cpos]
  define upd where "upd = (ensure_floor_le_ceiling u)(''LastFixed'' \<mapsto> PStr now,
      ''PartitionKey'' \<mapsto> PStr ''Grant'', ''RowKey'' \<mapsto> PStr grant_id)"
  have k: "entity_keys upd = Some (''Grant'', grant_id)"
    by (simp add: upd_def entity_keys_def)
  from h have m: "map_of tbl (''Grant'', grant_id) = Some entity" by simp
  have fx: "fix_grant grant_id web_data api_data now tbl
      = (case update_entity upd tbl of Inl e \<Rightarrow> (False, tbl) | Inr tbl' \<Rightarrow> (True, tbl'))"
    using h by (simp add: fix_grant_def g ff default_amounts_def Let_def upd_def
        flip: st0_def)
  {
    assume ints: "\<forall>n. entity ''ExpectedAwards'' = Some (PInt n)
             \<or> entity ''ExpectedNumberofAwards'' = Some (PInt n)
             \<or> (\<exists>v. map_of web_data ''expectedNumOfAwards'' = Some v
                    \<and> safe_int_scraper v 0 = PInt n)
             \<or> map_of web_data ''fundingInstrument'' = Some (JInt n)
           \<longrightarrow> - (2 ^ 31) \<le> n \<and> n < 2 ^ 31"
    have i1: "\<forall>v. entity ''ExpectedAwards'' = Some v \<longrightarrow> int32 v"
    proof (intro allI impI)
      fix v assume "entity ''ExpectedAwards'' = Some v"
      with ints show "int32 v" by (cases v) (simp_all add: int32_def)
    qed
    have i2: "\<forall>v. entity ''ExpectedNumberofAwards'' = Some v \<longrightarrow> int32 v"
    proof (intro allI impI)
      fix v assume "entity ''ExpectedNumberofAwards'' = Some v"
      with ints show "int32 v" by (cases v) (simp_all add: int32_def)
    qed
    have i3: "\<forall>v. map_of web_data ''expectedNumOfAwards'' = Some v
        \<longrightarrow> int32 (safe_int_scraper v 0)"
    proof (intro allI impI)
      fix v assume w: "map_of web_data ''expectedNumOfAwards'' = Some v"
      show "int32 (safe_int_scraper v 0)"
      proof (cases "safe_int_scraper v 0")
        case (PInt n)
        with ints w have "- (2 ^ 31) \<le> n \<and> n < 2 ^ 31" by blast
        with PInt show ?thesis by (simp add: int32_def)
      qed (simp_all add: int32_def)
    qed
    have i4: "\<forall>v p. map_of web_data ''fundingInstrument'' = Some v
        \<longrightarrow> to_pyval v = Some p \<longrightarrow> int32 p"
    proof (intro allI impI)
      fix v p assume w: "map_of web_data ''fundingInstrument'' = Some v"
        and p: "to_pyval v = Some p"
      show "int32 p"
      proof (cases v)
        case (JInt n)
        with ints w have "- (2 ^ 31) \<le> n \<and> n < 2 ^ 31" by blast
        with JInt p show ?thesis by (auto simp: int32_def)
      qed (use p in \<open>auto simp: int32_def\<close>)
    qed
    have "encodable (fst st0)"
      unfolding st0_def using i1 i2 by (intro sync_encodable) (simp_all add: encodable_empty)
    from web_fixes_encodable [OF u(1) this i3 i4] have "encodable u" by simp
    hence "encodable (ensure_floor_le_ceiling u)"
      by (auto simp: ensure_floor_le_ceiling_def encodable_upd int32_def
          split: option.splits pyval.splits)
    hence eu: "encodable upd"
      unfolding upd_def by (intro encodable_upd) (simp_all add: int32_def)
    from update_succeeds [OF m k eu]
    obtain tbl' where t: "update_entity upd tbl = Inr tbl'"
      "stored_props tbl' (''Grant'', grant_id) = entity ++ entity_props upd"
      by blast
    have pf: "entity_props upd ''AwardFloor'' = Some (PFloat (min f c))"
      and pc: "entity_props upd ''AwardCeiling'' = Some (PFloat (max f c))"
      by (simp_all add: entity_props_def upd_def e)
    show "\<exists>tbl'. fix_grant grant_id web_data api_data now tbl = (True, tbl')
           \<and> stored_props tbl' (''Grant'', grant_id) ''AwardFloor'' = Some (PFloat (min f c))
           \<and> stored_props tbl' (''Grant'', grant_id) ''AwardCeiling''
                = Some (PFloat (max f c))"
      by (simp add: fx t map_add_def pf pc)
  }
  {
    fix v n
    assume b: "map_of web_data ''expectedNumOfAwards'' = Some v
        \<and> safe_int_scraper v 0 = PInt n \<and> \<not> (- (2 ^ 31) \<le> n \<and> n < 2 ^ 31)"
    with web_fixes_awards [OF _ u(1), of v]
    have "u ''ExpectedNumberofAwards'' = Some (PInt n)" by simp
    hence "upd ''ExpectedNumberofAwards'' = Some (PInt n)"
      by (simp add: upd_def ensure_floor_le_ceiling_others)
    from not_encodable [of upd "''ExpectedNumberofAwards''" n] this b
    have "\<not> encodable upd" by simp
    from update_refused [OF k this]
    show "fix_grant grant_id web_data api_data now tbl = (False, tbl)"
      by (simp add: fx)
  }
next
  assume a: "opportunity ''id'' = Some (JStr oid) \<and> oid \<noteq> []
      \<and> JStr oid \<notin> processed_ids st"
  hence s: "stored_props (table (process_opportunity now' opportunity st)) (''Grant'', oid)
           = stored_props (table st) (''Grant'', oid)
               ++ entity_props (collector_entity now' (JStr oid) opportunity)"
    by (intro process_opportunity_stores) simp_all
  show "stored_props (table (process_opportunity now' opportunity st)) (''Grant'', oid)
             ''AwardFloor''
            = Some (PStr (clean_text (get_or opportunity ''awardFloor'' [])))"
    by (simp add: s map_add_def entity_props_def collector_entity_def)
  show "stored_props (table (process_opportunity now' opportunity st)) (''Grant'', oid)
               ''AwardCeiling''
              = Some (PStr (clean_text (get_or opportunity ''awardCeiling'' [])))"
    by (simp add: s map_add_def entity_props_def collector_entity_def)
qed

theorem fix_grant_orders_amounts_witness:
  "(\<exists>tbl'. fix_grant ''324456''
       [(''awardCeiling'', JStr ''5000000''), (''awardFloor'', JStr ''$15,000,000''),
        (''expectedNumOfAwards'', JStr ''3'')]
       None ''2026-11-03T10:00:00''
       [((''Grant'', ''324456''),
         [''Title'' \<mapsto> PStr ''Expeditions in Computing'', ''AwardCeiling'' \<mapsto> PFloat 0,
          ''AwardFloor'' \<mapsto> PFloat 0])]
     = (True, tbl')
     \<and> stored_props tbl' (''Grant'', ''324456'') ''AwardFloor'' = Some (PFloat 5000000)
     \<and> stored_props tbl' (''Grant'', ''324456'') ''AwardCeiling'' = Some (PFloat 15000000))
   \<and> fix_grant ''324456''
       [(''awardCeiling'', JStr ''5000000''), (''awardFloor'', JStr ''$15,000,000''),
        (''expectedNumOfAwards'', JStr ''3000000000'')]
       None ''2026-11-03T10:00:00''
       [((''Grant'', ''324456''),
         [''Title'' \<mapsto> PStr ''Expeditions in Computing'', ''AwardCeiling'' \<mapsto> PFloat 0,
          ''AwardFloor'' \<mapsto> PFloat 0])]
     = (False,
        [((''Grant'', ''324456''),
          [''Title'' \<mapsto> PStr ''Expeditions in Computing'', ''AwardCeiling'' \<mapsto> PFloat 0,
           ''AwardFloor'' \<mapsto> PFloat 0])])
   \<and> stored_props
       (table (process_opportunity ''2026-11-03T10:00:00''
          [''id'' \<mapsto> JStr ''324456'', ''awardFloor'' \<mapsto> JStr ''15000000'',
           ''awardCeiling'' \<mapsto> JStr ''5000000'']
          \<lparr> table = [], processed_ids = {}, total_grants_added = 0 \<rparr>))
       (''Grant'', ''324456'') ''AwardFloor'' = Some (PStr ''15000000'')"
proof -
  define entity :: props where "entity = [''Title'' \<mapsto> PStr ''Expeditions in Computing'',
      ''AwardCeiling'' \<mapsto> PFloat 0, ''AwardFloor'' \<mapsto> PFloat 0]"
  define w1 where "w1 = [(''awardCeiling'', JStr ''5000000''),
      (''awardFloor'', JStr ''$15,000,000''), (''expectedNumOfAwards'', JStr ''3'')]"
  define w2 where "w2 = [(''awardCeiling'', JStr ''5000000''),
      (''awardFloor'', JStr ''$15,000,000''), (''expectedNumOfAwards'', JStr ''3000000000'')]"
  define opp where "opp = [''id'' \<mapsto> JStr ''324456'', ''awardFloor'' \<mapsto> JStr ''15000000'',
           ''awardCeiling'' \<mapsto> JStr ''5000000'']"
  have a: "safe_float_scraper (JStr ''5000000'') 0 = Inr 5000000"
    "safe_float_scraper (JStr ''$15,000,000'') 0 = Inr 15000000"
    by (simp_all add: keep_numeric_def py_float_def float_unsigned_def is_digit_def
        digits_nat_def digit_val_def)
  have i: "safe_int_scraper (JStr ''3'') 0 = PInt 3"
    "safe_int_scraper (JStr ''3000000000'') 0 = PInt 3000000000"
    by (simp_all add: py_int_def int_isspace_def max_str_digits_def int_unsigned_def
        is_digit_def digit_val_def)
  have h1: "map_of [((''Grant'', ''324456''), entity)] (''Grant'', ''324456'') = Some entity
      \<and> (is_missing (entity ''AwardCeiling'') \<or> is_missing (entity ''AwardFloor''))
      \<and> map_of w1 ''awardCeiling'' = Some (JStr ''5000000'')
      \<and> map_of w1 ''awardFloor'' = Some (JStr ''$15,000,000'')
      \<and> safe_float_scraper (JStr ''5000000'') 0 = Inr 5000000
      \<and> safe_float_scraper (JStr ''$15,000,000'') 0 = Inr 15000000
      \<and> (5000000 :: rat) > 0 \<and> (15000000 :: rat) \<ge> 0"
    using a by (simp add: is_missing_def entity_def w1_def del: safe_float_scraper.simps)
  have h2: "map_of [((''Grant'', ''324456''), entity)] (''Grant'', ''324456'') = Some entity
      \<and> (is_missing (entity ''AwardCeiling'') \<or> is_missing (entity ''AwardFloor''))
      \<and> map_of w2 ''awardCeiling'' = Some (JStr ''5000000'')
      \<and> map_of w2 ''awardFloor'' = Some (JStr ''$15,000,000'')
      \<and> safe_float_scraper (JStr ''5000000'') 0 = Inr 5000000
      \<and> safe_float_scraper (JStr ''$15,000,000'') 0 = Inr 15000000
      \<and> (5000000 :: rat) > 0 \<and> (15000000 :: rat) \<ge> 0"
    using a by (simp add: is_missing_def entity_def w2_def del: safe_float_scraper.simps)
  have ints: "\<forall>n. entity ''ExpectedAwards'' = Some (PInt n)
             \<or> entity ''ExpectedNumberofAwards'' = Some (PInt n)
             \<or> (\<exists>v. map_of w1 ''expectedNumOfAwards'' = Some v
                    \<and> safe_int_scraper v 0 = PInt n)
             \<or> map_of w1 ''fundingInstrument'' = Some (JInt n)
           \<longrightarrow> - (2 ^ 31) \<le> n \<and> n < 2 ^ 31"
    using i(1) by (auto simp: entity_def w1_def simp del: safe_int_scraper.simps)
  have big: "map_of w2 ''expectedNumOfAwards'' = Some (JStr ''3000000000'')
      \<and> safe_int_scraper (JStr ''3000000000'') 0 = PInt 3000000000
      \<and> \<not> (- (2 ^ 31) \<le> (3000000000 :: int) \<and> (3000000000 :: int) < 2 ^ 31)"
    using i(2) by (simp add: w2_def del: safe_int_scraper.simps)
  have o: "opp ''id'' = Some (JStr ''324456'') \<and> ''324456'' \<noteq> []
      \<and> JStr ''324456'' \<notin> processed_ids \<lparr> table = [], processed_ids = {},
            total_grants_added = 0 \<rparr>"
    by (simp add: opp_def)
  have c: "clean_text (get_or opp ''awardFloor'' []) = ''15000000''"
    by (simp add: opp_def get_or_def clean_text_def nul_def)
  note t1 = fix_grant_orders_amounts [where tbl = "[((''Grant'', ''324456''), entity)]"
      and grant_id = "''324456''" and entity = entity and web_data = w1
      and cv = "JStr ''5000000''" and fv = "JStr ''$15,000,000''" and c = 5000000
      and f = 15000000 and api_data = None and now = "''2026-11-03T10:00:00''"
      and opportunity = opp and oid = "''324456''" and now' = "''2026-11-03T10:00:00''"
      and st = "\<lparr> table = [], processed_ids = {}, total_grants_added = 0 \<rparr>"]
  note t2 = fix_grant_orders_amounts [where tbl = "[((''Grant'', ''324456''), entity)]"
      and grant_id = "''324456''" and entity = entity and web_data = w2
      and cv = "JStr ''5000000''" and fv = "JStr ''$15,000,000''" and c = 5000000
      and f = 15000000 and api_data = None and now = "''2026-11-03T10:00:00''"
      and opportunity = opp and oid = "''324456''" and now' = "''2026-11-03T10:00:00''"
      and st = "\<lparr> table = [], processed_ids = {}, total_grants_added = 0 \<rparr>"]
  from t1 h1 ints
  have 1: "\<exists>tbl'. fix_grant ''324456'' w1 None ''2026-11-03T10:00:00''
         [((''Grant'', ''324456''), entity)] = (True, tbl')
     \<and> stored_props tbl' (''Grant'', ''324456'') ''AwardFloor'' = Some (PFloat 5000000)
     \<and> stored_props tbl' (''Grant'', ''324456'') ''AwardCeiling'' = Some (PFloat 15000000)"
    by simp
  from t2 h2 big
  have 2: "fix_grant ''324456'' w2 None ''2026-11-03T10:00:00''
         [((''Grant'', ''324456''), entity)] = (False, [((''Grant'', ''324456''), entity)])"
    by blast
  from t1 o
  have 3: "stored_props (table (process_opportunity ''2026-11-03T10:00:00'' opp
          \<lparr> table = [], processed_ids = {}, total_grants_added = 0 \<rparr>))
       (''Grant'', ''324456'') ''AwardFloor'' = Some (PStr ''15000000'')"
    unfolding c by blast
  from 1 2 3 show ?thesis
    unfolding entity_def w1_def w2_def opp_def by (intro conjI)
qed

section \<open>Properties of the retry loops\<close>

lemma requests_to_append:
  "requests_to s (xs @ ys) = requests_to s xs + requests_to s ys"
  by (simp add: requests_to_def)

lemma requests_to_Cons:
  "requests_to s (Request s' k # xs) = (if s' = s then 1 else 0) + requests_to s xs"
  "requests_to s (Backoff n # xs) = requests_to s xs"
  "requests_to s [] = 0"
  by (simp_all add: requests_to_def)

text \<open>
  A loop whose body only pauses between attempts makes at most one request for each
  attempt left, all of them to its own source.
\<close>

lemma retry_loop_requests:
  assumes "\<And>m r st a st' ps. body m r st a = Again st' ps \<Longrightarrow> requests_to s' ps = 0"
  shows "requests_to s' (snd (retry_loop get body s n k st))
           \<le> (if s' = s then n - k else 0)"
proof (induction "n - k" arbitrary: k st)
  case 0
  then show ?case
    by (simp add: retry_loop.simps [of get body s n k st] requests_to_Cons)
next
  case (Suc d)
  hence kn: "\<not> n \<le> k" by simp
  show ?case
  proof (cases "body n k st (get k)")
    case (Return a)
    with kn show ?thesis
      by (auto simp: retry_loop.simps [of get body s n k st] requests_to_Cons)
  next
    case (Break st')
    with kn show ?thesis
      by (auto simp: retry_loop.simps [of get body s n k st] requests_to_Cons)
  next
    case (Again st' ps)
    from assms [OF Again] have p: "requests_to s' ps = 0" .
    from Suc have "d = n - Suc k" by simp
    from Suc.hyps(1) [OF this, of st']
    have ih: "requests_to s' (snd (retry_loop get body s n (Suc k) st'))
        \<le> (if s' = s then n - Suc k else 0)" .
    obtain r tr where rt: "retry_loop get body s n (Suc k) st' = (r, tr)"
      by (cases "retry_loop get body s n (Suc k) st'")
    from ih have "requests_to s' tr \<le> (if s' = s then n - Suc k else 0)"
      by (simp add: rt)
    with kn Again p show ?thesis
      by (auto simp: retry_loop.simps [of get body s n k st] rt requests_to_Cons
          requests_to_append)
  qed
qed

lemma fetch_body_pauses:
  "fetch_body m r st a = Again st' ps \<Longrightarrow> requests_to s' ps = 0"
  by (auto simp: fetch_body_def on_exception_def requests_to_Cons
      split: http_result.splits if_splits option.splits api_json.splits)

lemma search_body_pauses:
  "search_body m r st a = Again st' ps \<Longrightarrow> requests_to s' ps = 0"
  by (auto simp: search_body_def on_exception_def requests_to_Cons
      split: http_result.splits if_splits option.splits api_json.splits list.splits)

lemma web_body_pauses:
  "web_body m r st a = Again st' ps \<Longrightarrow> requests_to s' ps = 0"
  by (auto simp: web_body_def requests_to_Cons
      split: http_result.splits if_splits option.splits)

lemma api_requests_capped:
  "requests_to 0 (snd (get_api_grant_details fetch search n)) \<le> n"
  "requests_to 1 (snd (get_api_grant_details fetch search n)) \<le> n"
proof -
  obtain r0 t0 where f: "retry_loop fetch fetch_body 0 n 0 () = (r0, t0)"
    by (cases "retry_loop fetch fetch_body 0 n 0 ()")
  obtain r1 t1 where s: "retry_loop search search_body 1 n 0 () = (r1, t1)"
    by (cases "retry_loop search search_body 1 n 0 ()")
  have "requests_to 0 (snd (retry_loop fetch fetch_body 0 n 0 ())) \<le> (if (0::nat) = 0 then n - 0 else 0)"
    by (rule retry_loop_requests) (rule fetch_body_pauses)
  hence a: "requests_to 0 t0 \<le> n" unfolding f by simp
  have "requests_to 1 (snd (retry_loop fetch fetch_body 0 n 0 ())) \<le> (if (1::nat) = 0 then n - 0 else 0)"
    by (rule retry_loop_requests) (rule fetch_body_pauses)
  hence b: "requests_to 1 t0 = 0" unfolding f by simp
  have "requests_to 0 (snd (retry_loop search search_body 1 n 0 ())) \<le> (if (0::nat) = 1 then n - 0 else 0)"
    by (rule retry_loop_requests) (rule search_body_pauses)
  hence c: "requests_to 0 t1 = 0" unfolding s by simp
  have "requests_to 1 (snd (retry_loop search search_body 1 n 0 ())) \<le> (if (1::nat) = 1 then n - 0 else 0)"
    by (rule retry_loop_requests) (rule search_body_pauses)
  hence d: "requests_to 1 t1 \<le> n" unfolding s by simp
  show "requests_to 0 (snd (get_api_grant_details fetch search n)) \<le> n"
    unfolding get_api_grant_details_def f s
    using a c by (cases r0; cases r1) (simp_all add: requests_to_append)
  show "requests_to 1 (snd (get_api_grant_details fetch search n)) \<le> n"
    unfolding get_api_grant_details_def f s
    using b d by (cases r0; cases r1) (simp_all add: requests_to_append)
qed

lemma retry_loop_again:
  assumes "k < n" and "body n k st (get k) = Again st' ps"
  shows "retry_loop get body s n k st
           = (fst (retry_loop get body s n (Suc k) st'),
              Request s k # ps @ snd (retry_loop get body s n (Suc k) st'))"
  using assms
  by (simp add: retry_loop.simps [of get body s n k st] split: prod.splits)

lemma retry_loop_break:
  assumes "k < n" and "body n k st (get k) = Break st'"
  shows "retry_loop get body s n k st = (Inr st', [Request s k])"
  using assms by (simp add: retry_loop.simps [of get body s n k st])

lemma retry_loop_return:
  assumes "k < n" and "body n k st (get k) = Return a"
  shows "retry_loop get body s n k st = (Inl a, [Request s k])"
  using assms by (simp add: retry_loop.simps [of get body s n k st])

text \<open>
  A run of rate-limited answers on the detail endpoint: one request and one pause for
  each of them, the pauses doubling, and the loop goes on where they end.
\<close>

lemma rate_limited_run:
  assumes "j \<le> k" and "k \<le> n"
    and "\<forall>i. j \<le> i \<and> i < k \<longrightarrow> (\<exists>b. fetch i = Response 403 b \<or> fetch i = Response 429 b)"
  shows "retry_loop fetch fetch_body 0 n j ()
           = (fst (retry_loop fetch fetch_body 0 n k ()),
              concat (map (\<lambda>i. [Request 0 i, Backoff (2 ^ i)]) [j..<k])
                @ snd (retry_loop fetch fetch_body 0 n k ()))"
  using assms
proof (induction "k - j" arbitrary: j)
  case 0
  hence "j = k" by simp
  then show ?case by simp
next
  case (Suc d)
  hence jk: "j < k" and jn: "j < n" by simp_all
  with Suc.prems(3) obtain b where "fetch j = Response 403 b \<or> fetch j = Response 429 b"
    by blast
  hence "fetch_body n j () (fetch j) = Again () [Backoff (2 ^ j)]"
    by (auto simp: fetch_body_def)
  with jn retry_loop_again [of j n fetch_body "()" fetch "()" "[Backoff (2 ^ j)]" 0]
  have step: "retry_loop fetch fetch_body 0 n j ()
      = (fst (retry_loop fetch fetch_body 0 n (Suc j) ()),
         Request 0 j # Backoff (2 ^ j) # snd (retry_loop fetch fetch_body 0 n (Suc j) ()))"
    by simp
  have "d = k - Suc j" using Suc.hyps(2) by simp
  moreover have "Suc j \<le> k" using jk by simp
  moreover have "\<forall>i. Suc j \<le> i \<and> i < k
      \<longrightarrow> (\<exists>b. fetch i = Response 403 b \<or> fetch i = Response 429 b)"
    using Suc.prems(3) by simp
  ultimately have ih: "retry_loop fetch fetch_body 0 n (Suc j) ()
      = (fst (retry_loop fetch fetch_body 0 n k ()),
         concat (map (\<lambda>i. [Request 0 i, Backoff (2 ^ i)]) [Suc j..<k])
           @ snd (retry_loop fetch fetch_body 0 n k ()))"
    using Suc.hyps(1) Suc.prems(2) by blast
  have "[j..<k] = j # [Suc j..<k]" using jk by (simp add: upt_conv_Cons)
  then show ?case by (simp add: step ih)
qed

text \<open>
  C3, as stated, fails both ways: an answer 403 from the detail endpoint is followed by
  a pause and a second request to the same endpoint, and an answer 500 is followed by
  no second request, although the next answer would have been a record.
\<close>

theorem forbidden_retried_server_error_not:
  "get_api_grant_details
     (answers [Response 403 None, Response 200 (Some (ApiJson 0 (Some ''record'')))])
     (answers []) 3
   = (Some ''record'', [Request 0 0, Backoff 1, Request 0 1])
   \<and> get_api_grant_details
     (answers [Response 500 None, Response 200 (Some (ApiJson 0 (Some ''record'')))])
     (answers [Response 200 (Some (ApiJson 0 (Some [''hit''])))]) 3
   = (Some ''hit'', [Request 0 0, Request 1 0])"
proof -
  have a: "retry_loop
      (answers [Response 403 None, Response 200 (Some (ApiJson 0 (Some ''record'')))])
      fetch_body 0 3 (Suc 0) () = (Inl (Some ''record''), [Request 0 1])"
    using retry_loop_return [of "Suc 0" 3 fetch_body "()"
        "answers [Response 403 None, Response 200 (Some (ApiJson 0 (Some ''record'')))]"
        "Some ''record''" 0]
    by (simp add: answers_def fetch_body_def)
  have b: "retry_loop
      (answers [Response 403 None, Response 200 (Some (ApiJson 0 (Some ''record'')))])
      fetch_body 0 3 0 () = (Inl (Some ''record''), [Request 0 0, Backoff 1, Request 0 1])"
    using retry_loop_again [of 0 3 fetch_body "()"
        "answers [Response 403 None, Response 200 (Some (ApiJson 0 (Some ''record'')))]"
        "()" "[Backoff (2 ^ 0)]" 0]
    by (simp add: answers_def fetch_body_def a)
  have c: "retry_loop
      (answers [Response 500 None, Response 200 (Some (ApiJson 0 (Some ''record'')))])
      fetch_body 0 3 0 () = (Inr (), [Request 0 0])"
    using retry_loop_break [of 0 3 fetch_body "()"
        "answers [Response 500 None, Response 200 (Some (ApiJson 0 (Some ''record'')))]"
        "()" 0]
    by (simp add: answers_def fetch_body_def)
  have d: "retry_loop (answers [Response 200 (Some (ApiJson 0 (Some [''hit''])))])
      search_body 1 3 0 () = (Inl (Some ''hit''), [Request 1 0])"
    using retry_loop_return [of 0 3 search_body "()"
        "answers [Response 200 (Some (ApiJson 0 (Some [''hit''])))]" "Some ''hit''" 1]
    by (simp add: answers_def search_body_def)
  show ?thesis
    unfolding get_api_grant_details_def b c d by simp
qed

text \<open>
  C3, amended. Each source, and each page address, is asked at most \<open>max_retries\<close>
  times. At an attempt on the
  detail endpoint, an answer 403 or 429 is followed by a pause of two to the power of
  the attempt number (plus a random part) and by the next attempt; a raised request
  (a timeout) and a 200 answer that is not JSON are treated in the same way unless the
  attempt was the last; every other status, 5xx included, ends the attempts on that
  endpoint at once and the search endpoint is asked next. The site scraper does the
  same for 403 and 429, goes on to its next address on every other status but 200, and
  repeats a raised request without a pause.
\<close>

theorem retry_policy:
  "requests_to 0 (snd (get_api_grant_details fetch search n)) \<le> n
   \<and> requests_to 1 (snd (get_api_grant_details fetch search n)) \<le> n
   \<and> requests_to u (snd (retry_loop site web_body u n 0 grant_data)) \<le> n
   \<and> (k \<le> n \<and> (\<forall>i < k. \<exists>b. fetch i = Response 403 b \<or> fetch i = Response 429 b) \<longrightarrow>
        retry_loop fetch fetch_body 0 n 0 ()
          = (fst (retry_loop fetch fetch_body 0 n k ()),
             concat (map (\<lambda>i. [Request 0 i, Backoff (2 ^ i)]) [0..<k])
               @ snd (retry_loop fetch fetch_body 0 n k ())))
   \<and> (k < n \<and> fetch k = Response status body \<and> (status = 403 \<or> status = 429) \<longrightarrow>
        retry_loop fetch fetch_body 0 n k ()
          = (fst (retry_loop fetch fetch_body 0 n (Suc k) ()),
             Request 0 k # Backoff (2 ^ k) # snd (retry_loop fetch fetch_body 0 n (Suc k) ())))
   \<and> (Suc k < n \<and> (fetch k = Raised \<or> fetch k = Response 200 None) \<longrightarrow>
        retry_loop fetch fetch_body 0 n k ()
          = (fst (retry_loop fetch fetch_body 0 n (Suc k) ()),
             Request 0 k # Backoff (2 ^ k) # snd (retry_loop fetch fetch_body 0 n (Suc k) ())))
   \<and> (k < n \<and> fetch k = Response status body
          \<and> status \<noteq> 200 \<and> status \<noteq> 403 \<and> status \<noteq> 429 \<longrightarrow>
        retry_loop fetch fetch_body 0 n k () = (Inr (), [Request 0 k]))
   \<and> (k < n \<and> site k = Response status pbody \<and> (status = 403 \<or> status = 429) \<longrightarrow>
        retry_loop site web_body u n k grant_data
          = (fst (retry_loop site web_body u n (Suc k) grant_data),
             Request u k # Backoff (2 ^ k)
               # snd (retry_loop site web_body u n (Suc k) grant_data)))
   \<and> (k < n \<and> site k = Response status pbody
          \<and> status \<noteq> 200 \<and> status \<noteq> 403 \<and> status \<noteq> 429 \<longrightarrow>
        retry_loop site web_body u n k grant_data = (Inr grant_data, [Request u k]))
   \<and> (k < n \<and> site k = Raised \<longrightarrow>
        retry_loop site web_body u n k grant_data
          = (fst (retry_loop site web_body u n (Suc k) grant_data),
             Request u k # snd (retry_loop site web_body u n (Suc k) grant_data)))"
proof (intro conjI impI)
  show "requests_to 0 (snd (get_api_grant_details fetch search n)) \<le> n"
    by (rule api_requests_capped)
  show "requests_to 1 (snd (get_api_grant_details fetch search n)) \<le> n"
    by (rule api_requests_capped)
  have "requests_to u (snd (retry_loop site web_body u n 0 grant_data))
      \<le> (if u = u then n - 0 else 0)"
    by (rule retry_loop_requests) (rule web_body_pauses)
  thus "requests_to u (snd (retry_loop site web_body u n 0 grant_data)) \<le> n"
    by simp
next
  assume "k \<le> n \<and> (\<forall>i < k. \<exists>b. fetch i = Response 403 b \<or> fetch i = Response 429 b)"
  then show "retry_loop fetch fetch_body 0 n 0 ()
          = (fst (retry_loop fetch fetch_body 0 n k ()),
             concat (map (\<lambda>i. [Request 0 i, Backoff (2 ^ i)]) [0..<k])
               @ snd (retry_loop fetch fetch_body 0 n k ()))"
    by (intro rate_limited_run) simp_all
next
  assume h: "k < n \<and> fetch k = Response status body \<and> (status = 403 \<or> status = 429)"
  hence "fetch_body n k () (fetch k) = Again () [Backoff (2 ^ k)]"
    by (auto simp: fetch_body_def)
  with h retry_loop_again [of k n fetch_body "()" fetch "()" "[Backoff (2 ^ k)]" 0]
  show "retry_loop fetch fetch_body 0 n k ()
          = (fst (retry_loop fetch fetch_body 0 n (Suc k) ()),
             Request 0 k # Backoff (2 ^ k) # snd (retry_loop fetch fetch_body 0 n (Suc k) ()))"
    by simp
next
  assume h: "Suc k < n \<and> (fetch k = Raised \<or> fetch k = Response 200 None)"
  hence "fetch_body n k () (fetch k) = Again () [Backoff (2 ^ k)]"
    by (auto simp: fetch_body_def on_exception_def)
  with h retry_loop_again [of k n fetch_body "()" fetch "()" "[Backoff (2 ^ k)]" 0]
  show "retry_loop fetch fetch_body 0 n k ()
          = (fst (retry_loop fetch fetch_body 0 n (Suc k) ()),
             Request 0 k # Backoff (2 ^ k) # snd (retry_loop fetch fetch_body 0 n (Suc k) ()))"
    by simp
next
  assume h: "k < n \<and> fetch k = Response status body
          \<and> status \<noteq> 200 \<and> status \<noteq> 403 \<and> status \<noteq> 429"
  hence "fetch_body n k () (fetch k) = Break ()"
    by (simp add: fetch_body_def)
  with h show "retry_loop fetch fetch_body 0 n k () = (Inr (), [Request 0 k])"
    by (simp add: retry_loop_break)
next
  assume h: "k < n \<and> site k = Response status pbody \<and> (status = 403 \<or> status = 429)"
  hence "web_body n k grant_data (site k) = Again grant_data [Backoff (2 ^ k)]"
    by (auto simp: web_body_def)
  with h retry_loop_again [of k n web_body grant_data site grant_data "[Backoff (2 ^ k)]" u]
  show "retry_loop site web_body u n k grant_data
          = (fst (retry_loop site web_body u n (Suc k) grant_data),
             Request u k # Backoff (2 ^ k)
               # snd (retry_loop site web_body u n (Suc k) grant_data))"
    by simp
next
  assume h: "k < n \<and> site k = Response status pbody
          \<and> status \<noteq> 200 \<and> status \<noteq> 403 \<and> status \<noteq> 429"
  hence "web_body n k grant_data (site k) = Break grant_data"
    by (simp add: web_body_def)
  with h show "retry_loop site web_body u n k grant_data = (Inr grant_data, [Request u k])"
    by (simp add: retry_loop_break)
next
  assume h: "k < n \<and> site k = Raised"
  hence "web_body n k grant_data (site k) = Again grant_data []"
    by (simp add: web_body_def)
  with h retry_loop_again [of k n web_body grant_data site grant_data "[]" u]
  show "retry_loop site web_body u n k grant_data
          = (fst (retry_loop site web_body u n (Suc k) grant_data),
             Request u k # snd (retry_loop site web_body u n (Suc k) grant_data))"
    by simp
qed

theorem retry_policy_witness:
  "retry_loop (answers [Response 429 None, Response 503 (None :: string api_json option)])
      fetch_body 0 3 0 ()
     = (Inr (), [Request 0 0, Backoff 1, Request 0 1])
   \<and> retry_loop (answers [Response 403 None, Response 404 None]) web_body 2 3 0 []
     = (Inr [], [Request 2 0, Backoff 1, Request 2 1])
   \<and> retry_loop
       (answers [Response 429 None, Response 403 None,
                 Response 429 (None :: string api_json option)])
       fetch_body 0 3 0 ()
     = (Inr (), [Request 0 0, Backoff 1, Request 0 1, Backoff 2, Request 0 2, Backoff 4])"
proof -
  note r3 = retry_policy [where fetch = "answers [Response 429 None, Response 403 None,
        Response 429 (None :: string api_json option)]"
      and search = "answers []" and n = 3 and k = 3 and status = 429 and body = None
      and site = "answers [Response 403 None, Response 404 None]" and pbody = None
      and u = 2 and grant_data = "[]"]
  have l: "\<forall>i < 3. \<exists>b. answers [Response 429 None, Response 403 None,
        Response 429 (None :: string api_json option)] i = Response 403 b
      \<or> answers [Response 429 None, Response 403 None,
        Response 429 (None :: string api_json option)] i = Response 429 b"
  proof (intro allI impI)
    fix i :: nat assume "i < 3"
    hence "i = 0 \<or> i = 1 \<or> i = 2" by auto
    then show "\<exists>b. answers [Response 429 None, Response 403 None,
        Response 429 (None :: string api_json option)] i = Response 403 b
      \<or> answers [Response 429 None, Response 403 None,
        Response 429 (None :: string api_json option)] i = Response 429 b"
      by (auto simp: answers_def)
  qed
  have z: "retry_loop (answers [Response 429 None, Response 403 None,
        Response 429 (None :: string api_json option)]) fetch_body 0 3 3 () = (Inr (), [])"
    by (simp add: retry_loop.simps [of _ _ _ 3 3])
  have "[0..<Suc (Suc (Suc 0))] = [0, Suc 0, Suc (Suc 0)]" by simp
  hence u3: "[0..<3] = [0, 1, 2]" by (simp add: numeral_3_eq_3 numeral_2_eq_2)
  have g: "retry_loop
       (answers [Response 429 None, Response 403 None,
                 Response 429 (None :: string api_json option)])
       fetch_body 0 3 0 ()
     = (Inr (), [Request 0 0, Backoff 1, Request 0 1, Backoff 2, Request 0 2, Backoff 4])"
    using r3 l by (simp add: z u3)
  note p1 = retry_policy [where fetch = "answers [Response 429 None,
        Response 503 (None :: string api_json option)]"
      and search = "answers []" and n = 3 and k = "Suc 0" and status = 503 and body = None
      and site = "answers [Response 403 None, Response 404 None]" and pbody = None
      and u = 2 and grant_data = "[]"]
  note p0 = retry_policy [where fetch = "answers [Response 429 None,
        Response 503 (None :: string api_json option)]"
      and search = "answers []" and n = 3 and k = 0 and status = 429 and body = None
      and site = "answers [Response 403 None, Response 404 None]" and pbody = None
      and u = 2 and grant_data = "[]"]
  note q1 = retry_policy [where fetch = "answers [Response 429 None,
        Response 503 (None :: string api_json option)]"
      and search = "answers []" and n = 3 and k = "Suc 0" and status = 404 and body = None
      and site = "answers [Response 403 None, Response 404 None]" and pbody = None
      and u = 2 and grant_data = "[]"]
  note q0 = retry_policy [where fetch = "answers [Response 429 None,
        Response 503 (None :: string api_json option)]"
      and search = "answers []" and n = 3 and k = 0 and status = 403 and body = None
      and site = "answers [Response 403 None, Response 404 None]" and pbody = None
      and u = 2 and grant_data = "[]"]
  have a: "retry_loop (answers [Response 429 None, Response 503 (None :: string api_json option)])
      fetch_body 0 3 (Suc 0) () = (Inr (), [Request 0 (Suc 0)])"
    using p1 by (simp add: answers_def)
  have b: "retry_loop (answers [Response 429 None, Response 503 (None :: string api_json option)])
      fetch_body 0 3 0 () = (Inr (), [Request 0 0, Backoff 1, Request 0 1])"
    using p0 by (simp add: answers_def a)
  have e: "retry_loop (answers [Response 403 None, Response 404 None]) web_body 2 3 (Suc 0) []
      = (Inr [], [Request 2 (Suc 0)])"
    using q1 by (simp add: answers_def)
  have f: "retry_loop (answers [Response 403 None, Response 404 None]) web_body 2 3 0 []
      = (Inr [], [Request 2 0, Backoff 1, Request 2 1])"
    using q0 by (simp add: answers_def e)
  from b f g show ?thesis by (intro conjI)
qed

end
